theory Spec2Isabelle
  imports Main "HOL-Library.Word"
begin

unbundle bit_operations_syntax

section \<open>Data model\<close>

type_synonym u8 = "8 word"
type_synonym u16 = "16 word"
type_synonym u32 = "32 word"

text \<open>
  Modelled from the spec: the struct \<^verbatim>\<open>srsran_cell_t\<close> of \<^verbatim>\<open>Phy::_cell\<close>, which the radio
  library's headers declare and the sources here only use. The specification's Cell has an
  identity, a cyclic-prefix type, a duplex mode, the flag \<^verbatim>\<open>mbms_dedicated\<close>, the
  resource-block count, the multicast resource-block count and the port count. The field
  names are those Phy.cpp reads and writes (\<^verbatim>\<open>id\<close> is \<open>cell_id\<close> here); the cyclic prefix
  and the frame type are only copied, so they are kept as numbers.
\<close>

record srsran_cell_t =
  cell_id :: u32
  cp :: u32
  frame_type :: u32
  nof_ports :: u32
  nof_prb :: u32
  mbsfn_prb :: u32
  mbms_dedicated :: bool

text \<open>
  Modelled from the spec: the struct \<^verbatim>\<open>srsran::sib13_t\<close> with its area descriptor and MCCH
  configuration, declared in the radio library's headers. The specification's SIB13 holds
  the MBSFN area identifier, the non-MBSFN region length (an enumerated step value) and an
  MCCH configuration (repetition period, offset, subframe-allocation bitmap, bitmap format
  version, signalling coding scheme); \<^verbatim>\<open>pmch_bandwidth\<close> is the field
  \<^verbatim>\<open>set_mch_scheduling_info\<close> reads. The enumerated fields
  \<^verbatim>\<open>mcch_repeat_period\<close>, \<^verbatim>\<open>sig_mcs\<close> and \<^verbatim>\<open>non_mbsfn_region_len\<close> are only ever read through
  \<^verbatim>\<open>enum_to_number\<close>, which srsran declares next to the enumerations; the records hold the number
  \<^verbatim>\<open>enum_to_number\<close> yields for the field: the period as the unsigned 32-bit right operand of
  \<^verbatim>\<open>sfn % ...\<close>, the two others as the byte stored into the decision.
  \<^verbatim>\<open>mbsfn_area_info_list\<close> is a fixed array with the count \<^verbatim>\<open>nof_mbsfn_area_info\<close> beside it;
  Phy.cpp reads element 0 whatever the count, so the array is a function of the index.
\<close>

record mcch_cfg_t =
  mcch_repeat_period :: u32
  mcch_offset :: u8
  sf_alloc_info :: u32
  sf_alloc_info_is_r16 :: bool
  sig_mcs :: u8

record mbsfn_area_info_t =
  mbsfn_area_id :: u8
  non_mbsfn_region_len :: u8
  mcch_cfg :: mcch_cfg_t
  pmch_bandwidth :: u8

record sib13_t =
  nof_mbsfn_area_info :: u32
  mbsfn_area_info_list :: "nat \<Rightarrow> mbsfn_area_info_t"

text \<open>
  Modelled from the spec: the struct \<^verbatim>\<open>srsran::mcch_msg_t\<close> with its channel and session
  descriptors, declared in the radio library's headers. The specification's MCCH message is
  a list of per-channel descriptors, each holding a data coding scheme, a scheduling period
  (an enumerated step value), a subframe-allocation end offset and a list of sessions; a
  session holds a logical-channel identifier and a TMGI made of a country code, a network
  code of 2 or 3 digits and a service identifier. The descriptors are in declared order;
  \<^verbatim>\<open>nof_pmch_info\<close> and \<^verbatim>\<open>nof_mbms_session_info\<close> are the lengths of the lists. \<^verbatim>\<open>mch_sched_period\<close> holds the number \<^verbatim>\<open>enum_to_number\<close> yields (the unsigned
  right operand of \<^verbatim>\<open>sfn % ...\<close>); \<^verbatim>\<open>sf_alloc_end\<close> is a 16-bit unsigned field and \<^verbatim>\<open>data_mcs\<close>
  a byte. The digits of the country and network code and the three bytes of the service
  identifier are fixed arrays of three bytes, read at the indices 0, 1 and 2 only.
\<close>

record plmn_id_t =
  mcc :: "nat \<Rightarrow> u8"
  mnc :: "nat \<Rightarrow> u8"
  nof_mnc_digits :: u8

record tmgi_t =
  plmn_id_explicit_value :: plmn_id_t
  serviced_id :: "nat \<Rightarrow> u8"

record mbms_session_info_t =
  tmgi :: tmgi_t
  lc_ch_id :: u8

record pmch_info_t =
  sf_alloc_end :: u16
  data_mcs :: u8
  mch_sched_period :: u32
  mbms_session_info_list :: "mbms_session_info_t list"

record mcch_msg_t =
  pmch_info_list :: "pmch_info_t list"

definition nof_pmch_info :: "mcch_msg_t \<Rightarrow> nat" where
  "nof_pmch_info m = length (pmch_info_list m)"

definition nof_mbms_session_info :: "pmch_info_t \<Rightarrow> nat" where
  "nof_mbms_session_info p = length (mbms_session_info_list p)"

text \<open>
  Modelled from the spec: the struct \<^verbatim>\<open>srsran_mbsfn_cfg_t\<close>, declared in the radio library's
  headers. The specification's scheduling decision has the enable flag, the MCCH flag, the
  MBSFN area identifier and the coding scheme (the channel index is the separate \<^verbatim>\<open>area\<close>
  of \<^verbatim>\<open>mbsfn_config_for_tti\<close>); Phy.cpp also writes \<^verbatim>\<open>non_mbsfn_region_length\<close>.
  The numeric fields have the width of the values that Phy.cpp assigns to them, one byte.
\<close>

record srsran_mbsfn_cfg_t =
  cfg_mbsfn_area_id :: u8
  non_mbsfn_region_length :: u8
  mbsfn_mcs :: u8
  enable :: bool
  is_mcch :: bool

text \<open>The registry entries \<^verbatim>\<open>Phy::mtch_info_t\<close> and \<^verbatim>\<open>Phy::mch_info_t\<close> of Phy.h.\<close>

record mtch_info_t =
  mtch_tmgi :: string
  mtch_dest :: string
  mtch_lcid :: int

record mch_info_t =
  mch_mcs :: int
  mtchs :: "mtch_info_t list"

text \<open>
  The members of \<^verbatim>\<open>Phy\<close> that Phy.cpp's control logic reads and writes (the member \<^verbatim>\<open>_x\<close> is
  the field \<open>m_x\<close>). The handles of the radio library (\<^verbatim>\<open>_ue_sync\<close>, \<^verbatim>\<open>_cell_search\<close>,
  \<^verbatim>\<open>_mib_sync\<close>, \<^verbatim>\<open>_mib\<close>) and the sample buffers are opaque to this program: what the library
  answers is an input of the operation that calls it.
\<close>

record phy =
  m_cell :: srsran_cell_t
  m_decode_mcch :: bool
  m_tti :: u32
  m_mcch_table :: "nat \<Rightarrow> u8"
  m_mcch_configured :: bool
  m_sib13 :: sib13_t
  m_mcch :: mcch_msg_t
  m_mch_configured :: bool
  m_mch_info :: "mch_info_t list"
  m_dests :: "nat \<rightharpoonup> (int \<rightharpoonup> string)"

text \<open>
  What the C++ leaves undefined and what it throws: \<^verbatim>\<open>x % 0\<close> on unsigned integers, and
  \<^verbatim>\<open>std::array::at\<close> out of range.
\<close>

datatype error = Modulo_by_zero | Out_of_range

section \<open>Subframe classifier\<close>

definition is_cas_subframe :: "phy \<Rightarrow> u32 \<Rightarrow> bool" where
  "is_cas_subframe s tti =
     (if mbms_dedicated (m_cell s) then tti mod 40 = 0
      else (tti mod 10 = 0 \<or> tti mod 10 = 4 \<or> tti mod 10 = 5 \<or> tti mod 10 = 9))"

definition is_mbsfn_subframe :: "phy \<Rightarrow> u32 \<Rightarrow> bool" where
  "is_mbsfn_subframe s tti =
     (if mbms_dedicated (m_cell s) then \<not> is_cas_subframe s tti
      else \<not> is_cas_subframe s tti \<and>
        (tti mod 10 = 1 \<or> tti mod 10 = 2 \<or> tti mod 10 = 3 \<or>
         tti mod 10 = 6 \<or> tti mod 10 = 7 \<or> tti mod 10 = 8))"

section \<open>Scheduling engine\<close>

text \<open>
  The allocation index \<^verbatim>\<open>sf_idx\<close> of the channel loop, in the unsigned 32-bit arithmetic of
  the C++: \<^verbatim>\<open>sf\<close> is a byte, promoted and converted to \<^verbatim>\<open>unsigned\<close> by the sum.
\<close>

definition sf_idx :: "bool \<Rightarrow> u32 \<Rightarrow> u8 \<Rightarrow> u32" where
  "sf_idx dedicated fn_in_scheduling_period sf =
     (if dedicated
      then fn_in_scheduling_period * 10 + ucast sf - (fn_in_scheduling_period div 4) - 1
      else fn_in_scheduling_period * 6 + (if sf < 6 then ucast sf - 1 else ucast sf - 3))"

text \<open>
  The loop over \<^verbatim>\<open>_mcch.pmch_info_list\<close>, from index \<open>i\<close> on. It returns the decision and the
  caller's \<^verbatim>\<open>area\<close>, both as they are when the loop ends or breaks.
\<close>

function pmch_loop ::
  "phy \<Rightarrow> u32 \<Rightarrow> u8 \<Rightarrow> nat \<Rightarrow> srsran_mbsfn_cfg_t \<Rightarrow> nat \<Rightarrow> error + (srsran_mbsfn_cfg_t \<times> nat)"
where
  "pmch_loop s sfn sf i cfg area =
     (if i < nof_pmch_info (m_mcch s) then
        (let p = pmch_info_list (m_mcch s) ! i in
         if mch_sched_period p = 0 then Inl Modulo_by_zero
         else
           (let fn_in_scheduling_period = sfn mod mch_sched_period p;
                idx = sf_idx (mbms_dedicated (m_cell s)) fn_in_scheduling_period sf
            in if idx \<le> ucast (sf_alloc_end p) then
                 (let area_info = mbsfn_area_info_list (m_sib13 s) 0 in
                  if (i = 0 \<and> fn_in_scheduling_period = 0 \<and> sf = 1) \<or>
                     (i > 0 \<and> ucast (sf_alloc_end (pmch_info_list (m_mcch s) ! (i - 1))) + 1 = idx)
                  then Inr (cfg\<lparr>mbsfn_mcs := (sig_mcs (mcch_cfg area_info)), enable := True\<rparr>, i)
                  else Inr (cfg\<lparr>mbsfn_mcs := (data_mcs p), enable := True\<rparr>, i))
               else pmch_loop s sfn sf (i + 1) cfg area))
      else Inr (cfg, area))"
  by pat_completeness auto
termination
  by (relation "measure (\<lambda>(s, sfn, sf, i, cfg, area). nof_pmch_info (m_mcch s) - i)") auto

text \<open>
  \<^verbatim>\<open>Phy::mbsfn_config_for_tti(tti, area)\<close>: the decision, the caller's \<^verbatim>\<open>area\<close> (passed by
  reference) and the object after the call. The local \<^verbatim>\<open>srsran_mbsfn_cfg_t cfg;\<close> is declared
  without an initialiser: its storage holds whatever the stack held there, which differs
  from call to call and is the input \<open>uninit\<close>. The function then writes \<^verbatim>\<open>enable\<close> and
  \<^verbatim>\<open>is_mcch\<close>, and the other fields only on the paths that assign them. No statement of the
  body assigns to a member of the object (its other effect is the two \<^verbatim>\<open>spdlog::debug\<close>
  lines), so the object after the call is the object before it.
\<close>

definition mbsfn_config_for_tti ::
  "phy \<Rightarrow> srsran_mbsfn_cfg_t \<Rightarrow> u32 \<Rightarrow> nat \<Rightarrow> error + (srsran_mbsfn_cfg_t \<times> nat \<times> phy)"
where
  "mbsfn_config_for_tti s uninit tti area =
     (let cfg = uninit\<lparr>enable := False, is_mcch := False\<rparr>
      in if \<not> m_mcch_configured s then Inr (cfg, area, s)
         else
           (let sfn = tti div 10;
                sf = (ucast (tti mod 10) :: u8);
                area_info = mbsfn_area_info_list (m_sib13 s) 0;
                cfg = cfg\<lparr>cfg_mbsfn_area_id := (mbsfn_area_id area_info),
                          non_mbsfn_region_length := (non_mbsfn_region_len area_info)\<rparr>
            in if mcch_repeat_period (mcch_cfg area_info) = 0 then Inl Modulo_by_zero
               else if sfn mod mcch_repeat_period (mcch_cfg area_info)
                         = ucast (mcch_offset (mcch_cfg area_info))
                       \<and> m_mcch_table s (unat sf) = 1
               then
                 (if m_decode_mcch s
                  then Inr (cfg\<lparr>mbsfn_mcs := (sig_mcs (mcch_cfg area_info)),
                                enable := True, is_mcch := True\<rparr>, area, s)
                  else Inr (cfg, area, s))
               else if m_mch_configured s then
                 (case pmch_loop s sfn sf 0
                         (cfg\<lparr>cfg_mbsfn_area_id := (mbsfn_area_id area_info)\<rparr>) area of
                    Inl e \<Rightarrow> Inl e
                  | Inr (cfg', area') \<Rightarrow> Inr (cfg', area', s))
               else Inr (cfg, area, s)))"

section \<open>Multicast channel registry\<close>

text \<open>
  \<^verbatim>\<open>sprintf\<close> with \<^verbatim>\<open>%x\<close>: lower-case hexadecimal digits, most significant first;
  \<^verbatim>\<open>%0wx\<close> pads with zeros on the left up to the width \<open>w\<close> and never cuts.
\<close>

definition hex_digit :: "nat \<Rightarrow> char" where
  "hex_digit d = ''0123456789abcdef'' ! d"

fun hex :: "nat \<Rightarrow> string" where
  "hex n = (if n < 16 then [hex_digit n] else hex (n div 16) @ [hex_digit (n mod 16)])"

declare hex.simps [simp del]

definition printf_0x :: "nat \<Rightarrow> nat \<Rightarrow> string" where
  "printf_0x w n = replicate (w - length (hex n)) (CHR ''0'') @ hex n"

text \<open>
  The \<^verbatim>\<open>sprintf (tmgi, "%06x%02x%02x%02x", ...)\<close> of \<^verbatim>\<open>set_mbsfn_config\<close>: the bytes are
  promoted to \<^verbatim>\<open>int\<close>, shifted and joined by bitwise or (\<^verbatim>\<open><<\<close> binds tighter than \<^verbatim>\<open>|\<close>).
\<close>

definition tmgi_sprintf :: "tmgi_t \<Rightarrow> string" where
  "tmgi_sprintf t =
     (let p = plmn_id_explicit_value t; sid = serviced_id t
      in printf_0x 6 (unat ((ucast (sid 2) :: u32) OR push_bit 8 (ucast (sid 1))
                              OR push_bit 16 (ucast (sid 0))))
       @ printf_0x 2 (unat (push_bit 4 (ucast (mcc p 1) :: u32) OR ucast (mcc p 0)))
       @ printf_0x 2 (unat (push_bit 4 (if nof_mnc_digits p = 2 then (0xF :: u32)
                                         else ucast (mnc p 2)) OR ucast (mcc p 2)))
       @ printf_0x 2 (unat (push_bit 4 (ucast (mnc p 1) :: u32) OR ucast (mnc p 0))))"

text \<open>
  The digits of the country and network code that the string prints are below 16 (each
  fits a nibble); the third network-code digit only counts when the code has three digits.
\<close>

definition bcd_digits :: "tmgi_t \<Rightarrow> bool" where
  "bcd_digits t =
     (let p = plmn_id_explicit_value t
      in unat (mcc p 0) < 16 \<and> unat (mcc p 1) < 16 \<and> unat (mcc p 2) < 16 \<and>
         unat (mnc p 0) < 16 \<and> unat (mnc p 1) < 16 \<and>
         (nof_mnc_digits p = 2 \<or> unat (mnc p 2) < 16))"

text \<open>
  \<^verbatim>\<open>_dests[i][lcid]\<close>: \<^verbatim>\<open>std::map::operator[]\<close> inserts an empty value for a key that is
  absent and returns it.
\<close>

definition dests_at ::
  "(nat \<rightharpoonup> (int \<rightharpoonup> string)) \<Rightarrow> nat \<Rightarrow> int \<Rightarrow> string \<times> (nat \<rightharpoonup> (int \<rightharpoonup> string))"
where
  "dests_at d i lcid =
     (let inner = (case d i of None \<Rightarrow> Map.empty | Some m \<Rightarrow> m)
      in case inner lcid of
           None \<Rightarrow> ([], d(i \<mapsto> inner(lcid \<mapsto> [])))
         | Some v \<Rightarrow> (v, d(i \<mapsto> inner)))"

definition set_dest_for_lcid :: "phy \<Rightarrow> nat \<Rightarrow> int \<Rightarrow> string \<Rightarrow> phy" where
  "set_dest_for_lcid s mch_idx lcid dest =
     (let inner = (case m_dests s mch_idx of None \<Rightarrow> Map.empty | Some m \<Rightarrow> m)
      in s\<lparr>m_dests := (m_dests s)(mch_idx \<mapsto> inner(lcid \<mapsto> dest))\<rparr>)"

text \<open>The inner loop of \<^verbatim>\<open>set_mbsfn_config\<close>, over the sessions of channel \<open>i\<close>.\<close>

fun mtch_loop ::
  "nat \<Rightarrow> mbms_session_info_t list \<Rightarrow> mtch_info_t list \<Rightarrow> (nat \<rightharpoonup> (int \<rightharpoonup> string))
     \<Rightarrow> mtch_info_t list \<times> (nat \<rightharpoonup> (int \<rightharpoonup> string))"
where
  "mtch_loop i [] acc d = (acc, d)"
| "mtch_loop i (x # xs) acc d =
     (let lcid = uint (lc_ch_id x);
          (dest, d') = dests_at d i lcid
      in mtch_loop i xs
           (acc @ [\<lparr>mtch_tmgi = tmgi_sprintf (tmgi x), mtch_dest = dest, mtch_lcid = lcid\<rparr>]) d')"

text \<open>The outer loop, over the channels from index \<open>i\<close> on.\<close>

fun mch_loop ::
  "nat \<Rightarrow> pmch_info_t list \<Rightarrow> mch_info_t list \<Rightarrow> (nat \<rightharpoonup> (int \<rightharpoonup> string))
     \<Rightarrow> mch_info_t list \<times> (nat \<rightharpoonup> (int \<rightharpoonup> string))"
where
  "mch_loop i [] acc d = (acc, d)"
| "mch_loop i (p # ps) acc d =
     (let (ms, d') = mtch_loop i (mbms_session_info_list p) [] d
      in mch_loop (i + 1) ps (acc @ [\<lparr>mch_mcs = uint (data_mcs p), mtchs = ms\<rparr>]) d')"

definition set_mbsfn_config :: "phy \<Rightarrow> mcch_msg_t \<Rightarrow> phy" where
  "set_mbsfn_config s mcch =
     (let s1 = s\<lparr>m_mcch := mcch, m_mch_configured := True, m_mch_info := []\<rparr>;
          (infos, d) = mch_loop 0 (pmch_info_list (m_mcch s1)) (m_mch_info s1) (m_dests s1)
      in s1\<lparr>m_mch_info := infos, m_dests := d\<rparr>)"

section \<open>Configuration setters\<close>

text \<open>
  \<^verbatim>\<open>set_mch_scheduling_info\<close>. The two table generators \<^verbatim>\<open>generate_mcch_table\<close> and
  \<^verbatim>\<open>generate_mcch_table_r16\<close> belong to the radio library; they are parameters here, each
  taking the zeroed table and the bitmap.
\<close>

definition set_mch_scheduling_info ::
  "((nat \<Rightarrow> u8) \<Rightarrow> u32 \<Rightarrow> (nat \<Rightarrow> u8)) \<Rightarrow> ((nat \<Rightarrow> u8) \<Rightarrow> u32 \<Rightarrow> (nat \<Rightarrow> u8))
     \<Rightarrow> phy \<Rightarrow> sib13_t \<Rightarrow> phy"
where
  "set_mch_scheduling_info generate_mcch_table generate_mcch_table_r16 s sib13 =
     (let s1 = (if pmch_bandwidth (mbsfn_area_info_list sib13 0) \<noteq> 0
                then s\<lparr>m_cell := (m_cell s)
                         \<lparr>mbsfn_prb := ucast (pmch_bandwidth (mbsfn_area_info_list sib13 0))\<rparr>\<rparr>
                else s)
      in if nof_mbsfn_area_info sib13 > 0 then
           (let c = mcch_cfg (mbsfn_area_info_list sib13 0);
                zeroed = (\<lambda>j. 0)
            in s1\<lparr>m_sib13 := sib13,
                  m_mcch_table :=
                    (if sf_alloc_info_is_r16 c
                     then generate_mcch_table_r16 zeroed (sf_alloc_info c)
                     else generate_mcch_table zeroed (sf_alloc_info c)),
                  m_mcch_configured := True\<rparr>)
         else s1)"

definition set_nof_mbsfn_prb :: "phy \<Rightarrow> u8 \<Rightarrow> phy" where
  "set_nof_mbsfn_prb s prb = s\<lparr>m_cell := (m_cell s)\<lparr>mbsfn_prb := ucast prb\<rparr>\<rparr>"

definition set_decode_mcch :: "phy \<Rightarrow> bool \<Rightarrow> phy" where
  "set_decode_mcch s d = s\<lparr>m_decode_mcch := d\<rparr>"

definition reset :: "phy \<Rightarrow> phy" where
  "reset s = s\<lparr>m_mcch_configured := False, m_mch_configured := False\<rparr>"

section \<open>Cell acquisition\<close>

definition kMaxSfn :: u32 where "kMaxSfn = 1024"
definition kSfnOffset :: u32 where "kSfnOffset = 4"
definition kSubframesPerFrame :: u32 where "kSubframesPerFrame = 10"
definition kMaxCellsToDiscover :: nat where "kMaxCellsToDiscover = 3"

text \<open>
  What the radio library answers during one \<^verbatim>\<open>synchronize_subframe\<close>: the return value of
  \<^verbatim>\<open>srsran_ue_sync_zerocopy\<close>, the subframe index, the return value of
  \<^verbatim>\<open>srsran_ue_mib_decode\<close> with the \<^verbatim>\<open>sfn_offset\<close> it stores (a C \<^verbatim>\<open>int\<close>), and the two unpack
  routines applied to the decoded payload: each takes the cell it is given and yields the
  cell it leaves and the frame number it stores.
\<close>

record sync_answers =
  ue_sync_zerocopy :: int
  ue_sync_get_sfidx :: u32
  ue_mib_decode :: int
  ue_mib_decode_sfn_offset :: int
  pbch_mib_mbms_unpack :: "srsran_cell_t \<Rightarrow> srsran_cell_t \<times> u32"
  pbch_mib_unpack :: "srsran_cell_t \<Rightarrow> srsran_cell_t \<times> u32"

text \<open>
  \<^verbatim>\<open>sfn + sfn_offset * kSfnOffset\<close> and \<^verbatim>\<open>sfn + sfn_offset\<close> are unsigned 32-bit sums: the
  \<^verbatim>\<open>int\<close> is converted to \<^verbatim>\<open>unsigned\<close>, which is \<open>word_of_int\<close>.
\<close>

definition synchronize_subframe :: "sync_answers \<Rightarrow> phy \<Rightarrow> bool \<times> phy" where
  "synchronize_subframe a s =
     (let ret = ue_sync_zerocopy a
      in if ret < 0 then (False, s)
         else if ret = 1 then
           (if ue_sync_get_sfidx a = 0 then
              (let sfn_offset = ue_mib_decode_sfn_offset a;
                   n = ue_mib_decode a
               in if n = 1 then
                    (if mbms_dedicated (m_cell s) then
                       (let (c, sfn) = pbch_mib_mbms_unpack a (m_cell s);
                            sfn = (sfn + word_of_int sfn_offset * kSfnOffset) mod kMaxSfn
                        in (True, s\<lparr>m_cell := c, m_tti := sfn * kSubframesPerFrame\<rparr>))
                     else
                       (let (c, sfn) = pbch_mib_unpack a (m_cell s);
                            sfn = (sfn + word_of_int sfn_offset) mod kMaxSfn
                        in (True, s\<lparr>m_cell := c, m_tti := sfn * kSubframesPerFrame\<rparr>)))
                  else (False, s))
            else (False, s))
         else (False, s))"

text \<open>
  What the radio library answers during one \<^verbatim>\<open>cell_search\<close>: the scan (return value, index
  of the strongest peak, the cells found), then for the attempt as a multicast-dedicated cell
  and for the attempt as a mixed cell the return value of
  \<^verbatim>\<open>srsran_ue_mib_sync_set_cell_prb\<close> and of \<^verbatim>\<open>srsran_ue_mib_sync_decode_prb\<close> with the port
  count it stores, the two unpack routines, \<^verbatim>\<open>srsran_cell_isvalid\<close>, and the return values of
  \<^verbatim>\<open>srsran_ue_sync_set_cell\<close> and \<^verbatim>\<open>srsran_ue_mib_set_cell\<close>. The frame number and its offset
  are only logged by \<^verbatim>\<open>cell_search\<close>.
\<close>

record cellsearch_result_t =
  found_cell_id :: u32
  found_cp :: u32
  found_frame_type :: u32

record cell_search_answers =
  ue_cellsearch_scan :: int
  max_peak_cell :: nat
  found_cells :: "nat \<Rightarrow> cellsearch_result_t"
  set_cell_prb_dedicated :: int
  decode_prb_dedicated :: "int \<times> u32"
  set_cell_prb_mixed :: int
  decode_prb_mixed :: "int \<times> u32"
  cs_pbch_mib_mbms_unpack :: "srsran_cell_t \<Rightarrow> srsran_cell_t \<times> u32"
  cs_pbch_mib_unpack :: "srsran_cell_t \<Rightarrow> srsran_cell_t \<times> u32"
  cell_isvalid :: "srsran_cell_t \<Rightarrow> bool"
  ue_sync_set_cell :: int
  ue_mib_set_cell :: int

text \<open>
  The second half of \<^verbatim>\<open>cell_search\<close>, from \<^verbatim>\<open>if (ret == 1)\<close> on, for the provisional cell
  and the return value of the decode attempt that counts.
\<close>

definition cell_search_finish ::
  "cell_search_answers \<Rightarrow> phy \<Rightarrow> srsran_cell_t \<Rightarrow> int \<Rightarrow> bool \<times> phy"
where
  "cell_search_finish a s new_cell ret =
     (if ret = 1 then
        (let new_cell = (if mbms_dedicated new_cell
                         then fst (cs_pbch_mib_mbms_unpack a new_cell)
                         else fst (cs_pbch_mib_unpack a new_cell))
         in if \<not> cell_isvalid a new_cell then (False, s)
            else
              (let s = s\<lparr>m_cell := new_cell\<rparr>;
                   s = s\<lparr>m_cell := (m_cell s)\<lparr>mbsfn_prb := nof_prb (m_cell s)\<rparr>\<rparr>
               in if ue_sync_set_cell a \<noteq> 0 then (False, s)
                  else if ue_mib_set_cell a \<noteq> 0 then (False, s)
                  else (True, s)))
      else (False, s))"

definition cell_search :: "cell_search_answers \<Rightarrow> phy \<Rightarrow> error + (bool \<times> phy)" where
  "cell_search a s =
     (let ret = ue_cellsearch_scan a
      in if ret < 0 then Inr (False, s)
         else if ret = 0 then Inr (False, s)
         else if \<not> max_peak_cell a < kMaxCellsToDiscover then Inl Out_of_range
         else
           (let found = found_cells a (max_peak_cell a);
                new_cell = \<lparr>cell_id = found_cell_id found, cp = found_cp found,
                            frame_type = found_frame_type found, nof_ports = 0, nof_prb = 0,
                            mbsfn_prb = 0, mbms_dedicated = True\<rparr>
            in if set_cell_prb_dedicated a \<noteq> 0 then Inr (False, s)
               else
                 (let (ret, ports) = decode_prb_dedicated a;
                      new_cell = new_cell\<lparr>nof_ports := ports\<rparr>
                  in if ret = 0 then
                       (let new_cell = new_cell\<lparr>mbms_dedicated := False\<rparr>
                        in if set_cell_prb_mixed a \<noteq> 0 then Inr (False, s)
                           else
                             (let (ret, ports) = decode_prb_mixed a;
                                  new_cell = new_cell\<lparr>nof_ports := ports\<rparr>
                              in Inr (cell_search_finish a s new_cell ret)))
                     else Inr (cell_search_finish a s new_cell ret))))"

section \<open>Scheduling engine: sequences of calls and derived quantities\<close>

text \<open>
  Successive calls of \<^verbatim>\<open>mbsfn_config_for_tti\<close> on one object, the caller passing the same
  \<^verbatim>\<open>area\<close> variable each time: the variable and the object after the last call. Each call
  comes with its TTI and with the stack contents it finds.
\<close>

fun calls :: "phy \<Rightarrow> nat \<Rightarrow> (u32 \<times> srsran_mbsfn_cfg_t) list \<Rightarrow> error + (nat \<times> phy)" where
  "calls s area [] = Inr (area, s)"
| "calls s area ((t, uninit) # ts) =
     (case mbsfn_config_for_tti s uninit t area of
        Inl e \<Rightarrow> Inl e
      | Inr (cfg, area', s') \<Rightarrow> calls s' area' ts)"

subsection \<open>The quantities of the channel check\<close>

text \<open>
  Names for the values \<^verbatim>\<open>mbsfn_config_for_tti\<close> computes from a TTI: \<^verbatim>\<open>sfn\<close>, \<^verbatim>\<open>sf\<close>, for
  channel \<open>i\<close> the local \<^verbatim>\<open>fn_in_scheduling_period\<close> and \<^verbatim>\<open>sf_idx\<close>, the test
  \<^verbatim>\<open>sf_idx <= sf_alloc_end\<close>, the condition of the MCCH branch, the condition under which the
  signalling coding scheme is assigned, the decision before any branch has enabled it, and
  the decision of a subframe of channel \<open>i\<close>. \<open>periods_nonzero\<close> says that no \<^verbatim>\<open>%\<close> of the
  function has a zero right operand.
\<close>

definition frame_number :: "u32 \<Rightarrow> u32" where
  "frame_number tti = tti div 10"

definition subframe_index :: "u32 \<Rightarrow> u8" where
  "subframe_index tti = ucast (tti mod 10)"

definition period_frame :: "phy \<Rightarrow> u32 \<Rightarrow> nat \<Rightarrow> u32" where
  "period_frame s tti i =
     frame_number tti mod mch_sched_period (pmch_info_list (m_mcch s) ! i)"

definition alloc_index :: "phy \<Rightarrow> u32 \<Rightarrow> nat \<Rightarrow> u32" where
  "alloc_index s tti i =
     sf_idx (mbms_dedicated (m_cell s)) (period_frame s tti i) (subframe_index tti)"

definition in_window :: "phy \<Rightarrow> u32 \<Rightarrow> nat \<Rightarrow> bool" where
  "in_window s tti i =
     (alloc_index s tti i \<le> ucast (sf_alloc_end (pmch_info_list (m_mcch s) ! i)))"

definition mcch_slot :: "phy \<Rightarrow> u32 \<Rightarrow> bool" where
  "mcch_slot s tti =
     (let c = mcch_cfg (mbsfn_area_info_list (m_sib13 s) 0)
      in frame_number tti mod mcch_repeat_period c = ucast (mcch_offset c) \<and>
         m_mcch_table s (unat (subframe_index tti)) = 1)"

definition signalling_subframe :: "phy \<Rightarrow> u32 \<Rightarrow> nat \<Rightarrow> bool" where
  "signalling_subframe s tti i =
     ((i = 0 \<and> period_frame s tti i = 0 \<and> subframe_index tti = 1) \<or>
      (i > 0 \<and> ucast (sf_alloc_end (pmch_info_list (m_mcch s) ! (i - 1))) + 1
                  = alloc_index s tti i))"

definition base_cfg :: "phy \<Rightarrow> srsran_mbsfn_cfg_t \<Rightarrow> srsran_mbsfn_cfg_t" where
  "base_cfg s uninit =
     uninit\<lparr>enable := False, is_mcch := False,
            cfg_mbsfn_area_id := mbsfn_area_id (mbsfn_area_info_list (m_sib13 s) 0),
            non_mbsfn_region_length :=
              non_mbsfn_region_len (mbsfn_area_info_list (m_sib13 s) 0)\<rparr>"

definition channel_cfg :: "phy \<Rightarrow> srsran_mbsfn_cfg_t \<Rightarrow> u32 \<Rightarrow> nat \<Rightarrow> srsran_mbsfn_cfg_t" where
  "channel_cfg s uninit tti i =
     (base_cfg s uninit)\<lparr>mbsfn_mcs :=
         (if signalling_subframe s tti i
               then sig_mcs (mcch_cfg (mbsfn_area_info_list (m_sib13 s) 0))
               else data_mcs (pmch_info_list (m_mcch s) ! i)),
       enable := True\<rparr>"

definition periods_nonzero :: "phy \<Rightarrow> bool" where
  "periods_nonzero s =
     (mcch_repeat_period (mcch_cfg (mbsfn_area_info_list (m_sib13 s) 0)) \<noteq> 0 \<and>
      list_all (\<lambda>p. mch_sched_period p \<noteq> 0) (pmch_info_list (m_mcch s)))"

section \<open>Concrete configurations\<close>

text \<open>
  Stack storage filled with one byte value, as a memory-poisoning allocator leaves it: every
  numeric field reads as that byte and a flag reads as true when the byte is not zero.
\<close>

definition stack_contents :: "u8 \<Rightarrow> srsran_mbsfn_cfg_t" where
  "stack_contents b =
     \<lparr>cfg_mbsfn_area_id = b, non_mbsfn_region_length = b, mbsfn_mcs = b,
      enable = (b \<noteq> 0), is_mcch = (b \<noteq> 0)\<rparr>"

text \<open>
  The configurations of the scenarios: an area with MCCH repetition period 32 frames and
  offset 0, signalling coding scheme 2, an MCCH table that marks subframe 0 only, and a
  cell of 25 resource blocks that is multicast-dedicated or mixed, with MCCH decoding on or
  off and the given channels.
\<close>

definition scenario_area_info :: mbsfn_area_info_t where
  "scenario_area_info =
     \<lparr>mbsfn_area_id = 7, non_mbsfn_region_len = 1,
      mcch_cfg = \<lparr>mcch_repeat_period = 32, mcch_offset = 0, sf_alloc_info = 32,
                  sf_alloc_info_is_r16 = False, sig_mcs = 2\<rparr>,
      pmch_bandwidth = 0\<rparr>"

definition scenario_phy :: "bool \<Rightarrow> bool \<Rightarrow> pmch_info_t list \<Rightarrow> phy" where
  "scenario_phy dedicated decode chans =
     \<lparr>m_cell = \<lparr>cell_id = 1, cp = 0, frame_type = 0, nof_ports = 1, nof_prb = 25,
                mbsfn_prb = 25, mbms_dedicated = dedicated\<rparr>,
      m_decode_mcch = decode, m_tti = 0,
      m_mcch_table = (\<lambda>j. if j = 0 then 1 else 0),
      m_mcch_configured = True,
      m_sib13 = \<lparr>nof_mbsfn_area_info = 1, mbsfn_area_info_list = (\<lambda>j. scenario_area_info)\<rparr>,
      m_mcch = \<lparr>pmch_info_list = chans\<rparr>,
      m_mch_configured = True, m_mch_info = [], m_dests = Map.empty\<rparr>"

definition channel :: "u32 \<Rightarrow> u16 \<Rightarrow> u8 \<Rightarrow> pmch_info_t" where
  "channel period alloc_end mcs =
     \<lparr>sf_alloc_end = alloc_end, data_mcs = mcs, mch_sched_period = period,
      mbms_session_info_list = []\<rparr>"

text \<open>
  Answers of the radio library: a subframe 0 whose MIB decodes to frame number 1023 with
  \<^verbatim>\<open>sfn_offset\<close> 2, and a cell search that finds one cell of 25 resource blocks at the first
  decode attempt. A table generator that leaves the zeroed table (the properties below do
  not depend on the generators), and SIB13 with a given \<^verbatim>\<open>pmch_bandwidth\<close>.
\<close>

definition scenario_sync :: sync_answers where
  "scenario_sync =
     \<lparr>ue_sync_zerocopy = 1, ue_sync_get_sfidx = 0, ue_mib_decode = 1,
      ue_mib_decode_sfn_offset = 2,
      pbch_mib_mbms_unpack = (\<lambda>c. (c, 1023)),
      pbch_mib_unpack = (\<lambda>c. (c, 1023))\<rparr>"

definition scenario_search :: cell_search_answers where
  "scenario_search =
     \<lparr>ue_cellsearch_scan = 1, max_peak_cell = 0,
      found_cells = (\<lambda>j. \<lparr>found_cell_id = 1, found_cp = 0, found_frame_type = 0\<rparr>),
      set_cell_prb_dedicated = 0, decode_prb_dedicated = (1, 1),
      set_cell_prb_mixed = 0, decode_prb_mixed = (1, 1),
      cs_pbch_mib_mbms_unpack = (\<lambda>c. (c\<lparr>nof_prb := 25\<rparr>, 0)),
      cs_pbch_mib_unpack = (\<lambda>c. (c\<lparr>nof_prb := 25\<rparr>, 0)),
      cell_isvalid = (\<lambda>c. True), ue_sync_set_cell = 0, ue_mib_set_cell = 0\<rparr>"

definition scenario_generate_mcch_table :: "(nat \<Rightarrow> u8) \<Rightarrow> u32 \<Rightarrow> (nat \<Rightarrow> u8)" where
  "scenario_generate_mcch_table table sf_alloc = table"

definition scenario_sib13 :: "u8 \<Rightarrow> sib13_t" where
  "scenario_sib13 bw =
     \<lparr>nof_mbsfn_area_info = 1,
      mbsfn_area_info_list = (\<lambda>j. scenario_area_info\<lparr>pmch_bandwidth := bw\<rparr>)\<rparr>"

text \<open>
  An array of three bytes, a TMGI from its digits and service identifier, and an MCCH
  message with one channel that carries one session with the given TMGI.
\<close>

definition bytes3 :: "u8 \<Rightarrow> u8 \<Rightarrow> u8 \<Rightarrow> nat \<Rightarrow> u8" where
  "bytes3 a b c = (\<lambda>i. if i = 0 then a else if i = 1 then b else c)"

definition tmgi_of :: "(nat \<Rightarrow> u8) \<Rightarrow> (nat \<Rightarrow> u8) \<Rightarrow> u8 \<Rightarrow> (nat \<Rightarrow> u8) \<Rightarrow> tmgi_t" where
  "tmgi_of mcc_digits mnc_digits n service =
     \<lparr>plmn_id_explicit_value = \<lparr>mcc = mcc_digits, mnc = mnc_digits, nof_mnc_digits = n\<rparr>,
      serviced_id = service\<rparr>"

definition scenario_mcch :: "tmgi_t \<Rightarrow> mcch_msg_t" where
  "scenario_mcch t =
     \<lparr>pmch_info_list =
        [\<lparr>sf_alloc_end = 9, data_mcs = 5, mch_sched_period = 32,
          mbms_session_info_list = [\<lparr>tmgi = t, lc_ch_id = 1\<rparr>]\<rparr>]\<rparr>"

section \<open>Properties of the classifier\<close>

lemma word_mod_10_eq: "((w :: u32) mod 10 = k) = (unat w mod 10 = unat k)"
  by (simp add: word_unat_eq_iff unat_mod_distrib)

lemma word_mod_40_eq: "((w :: u32) mod 40 = 0) = (unat w mod 40 = 0)"
  by (simp add: word_unat_eq_iff unat_mod_distrib)

text \<open>
  Claim C2. For every TTI: in a multicast-dedicated cell \<^verbatim>\<open>is_cas_subframe\<close> holds iff
  \<open>tti mod 40 = 0\<close> and \<^verbatim>\<open>is_mbsfn_subframe\<close> holds iff \<open>tti mod 40 \<noteq> 0\<close>; in a mixed cell
  \<^verbatim>\<open>is_cas_subframe\<close> holds iff \<open>tti mod 10\<close> is one of 0, 4, 5, 9 and \<^verbatim>\<open>is_mbsfn_subframe\<close>
  holds iff the subframe is not CAS and \<open>tti mod 10\<close> is one of 1, 2, 3, 6, 7, 8. No TTI is
  both CAS and MBSFN-eligible, so each TTI is in exactly one of the classes CAS,
  MBSFN-eligible and neither.
\<close>

theorem classifier_exact:
  "(mbms_dedicated (m_cell s) \<longrightarrow>
      (is_cas_subframe s tti \<longleftrightarrow> unat tti mod 40 = 0) \<and>
      (is_mbsfn_subframe s tti \<longleftrightarrow> unat tti mod 40 \<noteq> 0)) \<and>
   (\<not> mbms_dedicated (m_cell s) \<longrightarrow>
      (is_cas_subframe s tti \<longleftrightarrow> unat tti mod 10 \<in> {0, 4, 5, 9}) \<and>
      (is_mbsfn_subframe s tti \<longleftrightarrow>
         \<not> is_cas_subframe s tti \<and> unat tti mod 10 \<in> {1, 2, 3, 6, 7, 8})) \<and>
   \<not> (is_cas_subframe s tti \<and> is_mbsfn_subframe s tti)"
  by (simp add: is_cas_subframe_def is_mbsfn_subframe_def word_mod_10_eq word_mod_40_eq)

text \<open>
  The scenario of the specification: in a mixed cell TTI 4 is CAS and TTI 1 is
  MBSFN-eligible; in a multicast-dedicated cell TTI 40 is CAS and TTI 41 MBSFN-eligible.
\<close>

theorem classifier_exact_witness:
  "\<not> mbms_dedicated (m_cell (scenario_phy False True [])) \<and>
   is_cas_subframe (scenario_phy False True []) 4 \<and>
   is_mbsfn_subframe (scenario_phy False True []) 1 \<and>
   mbms_dedicated (m_cell (scenario_phy True True [])) \<and>
   is_cas_subframe (scenario_phy True True []) 40 \<and>
   is_mbsfn_subframe (scenario_phy True True []) 41"
  using classifier_exact [of "scenario_phy False True []" 4]
    classifier_exact [of "scenario_phy False True []" 1]
    classifier_exact [of "scenario_phy True True []" 40]
    classifier_exact [of "scenario_phy True True []" 41]
  by (simp add: scenario_phy_def)

section \<open>Properties of cell acquisition\<close>

lemma uint_sfn_times_10:
  "uint (((x :: u32) + word_of_int k) mod 1024 * 10) = ((uint x + k) mod 1024) * 10"
proof -
  have dvd: "(1024 :: int) dvd 4294967296" by simp
  have m: "uint ((x + word_of_int k) mod 1024) = (uint x + k) mod 1024"
    by (simp add: uint_mod_distrib uint_word_ariths uint_word_of_int take_bit_eq_mod
          mod_add_right_eq mod_mod_cancel [OF dvd])
  have lt: "uint ((x + word_of_int k) mod 1024) < 1024"
    by (simp add: m)
  have ge: "0 \<le> uint ((x + word_of_int k) mod 1024)" by simp
  have "uint ((x + word_of_int k) mod 1024 * 10) = uint ((x + word_of_int k) mod 1024) * 10"
    using lt ge by (simp add: uint_word_ariths take_bit_eq_mod)
  then show ?thesis by (simp add: m)
qed

text \<open>
  Claim C8. \<^verbatim>\<open>synchronize_subframe\<close> returns true exactly when the next aligned subframe is
  acquired (\<^verbatim>\<open>srsran_ue_sync_zerocopy\<close> returns 1), its subframe index is 0 and the MIB
  re-decode succeeds (\<^verbatim>\<open>srsran_ue_mib_decode\<close> returns 1), and false otherwise. When it
  returns true the stored TTI is SFN * 10, where SFN is (decoded SFN + 4 * sfn_offset) mod
  1024 in a multicast-dedicated cell and (decoded SFN + sfn_offset) mod 1024 in a mixed cell.
\<close>

theorem synchronize_subframe_result:
  "(fst (synchronize_subframe a s) \<longleftrightarrow>
      ue_sync_zerocopy a = 1 \<and> ue_sync_get_sfidx a = 0 \<and> ue_mib_decode a = 1) \<and>
   (fst (synchronize_subframe a s) \<longrightarrow>
      uint (m_tti (snd (synchronize_subframe a s))) =
        (if mbms_dedicated (m_cell s)
         then (uint (snd (pbch_mib_mbms_unpack a (m_cell s)))
                 + 4 * ue_mib_decode_sfn_offset a) mod 1024
         else (uint (snd (pbch_mib_unpack a (m_cell s)))
                 + ue_mib_decode_sfn_offset a) mod 1024) * 10)"
proof -
  have four: "word_of_int (ue_mib_decode_sfn_offset a) * (4 :: u32)
                = word_of_int (4 * ue_mib_decode_sfn_offset a)"
    by simp
  show ?thesis
    unfolding synchronize_subframe_def kMaxSfn_def kSfnOffset_def kSubframesPerFrame_def Let_def
    by (simp add: split_beta four uint_sfn_times_10 del: of_int_mult)
qed

text \<open>
  Decoded frame number 1023 with offset 2: in a multicast-dedicated cell the frame number is
  (1023 + 8) mod 1024 = 7 and the TTI 70; in a mixed cell (1023 + 2) mod 1024 = 1 and the TTI 10.
\<close>

theorem synchronize_subframe_result_witness:
  "fst (synchronize_subframe scenario_sync (scenario_phy True True [])) \<and>
   uint (m_tti (snd (synchronize_subframe scenario_sync (scenario_phy True True [])))) = 70 \<and>
   fst (synchronize_subframe scenario_sync (scenario_phy False True [])) \<and>
   uint (m_tti (snd (synchronize_subframe scenario_sync (scenario_phy False True [])))) = 10"
  using synchronize_subframe_result [of scenario_sync "scenario_phy True True []"]
    synchronize_subframe_result [of scenario_sync "scenario_phy False True []"]
  by (simp add: scenario_sync_def scenario_phy_def)

lemma cell_search_finish_prb:
  "cell_search_finish a s c r = (True, s') \<Longrightarrow> mbsfn_prb (m_cell s') = nof_prb (m_cell s')"
  by (auto simp: cell_search_finish_def Let_def split: if_splits)

lemma cell_search_scenario:
  "cell_search scenario_search (scenario_phy True True []) = Inr (True, scenario_phy True True [])"
  by (simp add: cell_search_def cell_search_finish_def scenario_search_def scenario_phy_def
        kMaxCellsToDiscover_def Let_def)

text \<open>
  Claim C7, as stated, fails: after a successful cell search on a cell of 25 resource
  blocks, SIB13 with \<^verbatim>\<open>pmch_bandwidth\<close> 40 makes \<^verbatim>\<open>mbsfn_prb\<close> 40, and
  \<^verbatim>\<open>set_nof_mbsfn_prb(100)\<close> makes it 100, both above \<^verbatim>\<open>nof_prb\<close> = 25.
\<close>

theorem mbsfn_prb_invariant_counterexample:
  "cell_search scenario_search (scenario_phy True True [])
     = Inr (True, scenario_phy True True []) \<and>
   nof_prb (m_cell (set_mch_scheduling_info scenario_generate_mcch_table scenario_generate_mcch_table
      (scenario_phy True True []) (scenario_sib13 40))) = 25 \<and>
   mbsfn_prb (m_cell (set_mch_scheduling_info scenario_generate_mcch_table scenario_generate_mcch_table
      (scenario_phy True True []) (scenario_sib13 40))) = 40 \<and>
   \<not> mbsfn_prb (m_cell (set_mch_scheduling_info scenario_generate_mcch_table scenario_generate_mcch_table
        (scenario_phy True True []) (scenario_sib13 40)))
      \<le> nof_prb (m_cell (set_mch_scheduling_info scenario_generate_mcch_table scenario_generate_mcch_table
        (scenario_phy True True []) (scenario_sib13 40))) \<and>
   \<not> mbsfn_prb (m_cell (set_nof_mbsfn_prb (scenario_phy True True []) 100))
      \<le> nof_prb (m_cell (set_nof_mbsfn_prb (scenario_phy True True []) 100))"
  by (simp add: cell_search_scenario)
     (simp add: set_mch_scheduling_info_def set_nof_mbsfn_prb_def scenario_sib13_def
        scenario_area_info_def scenario_phy_def Let_def)

text \<open>
  Claim C7, amended. Immediately after a successful \<^verbatim>\<open>cell_search\<close>, \<^verbatim>\<open>mbsfn_prb\<close> equals
  \<^verbatim>\<open>nof_prb\<close>. \<^verbatim>\<open>set_mch_scheduling_info\<close> overrides \<^verbatim>\<open>mbsfn_prb\<close> with SIB13's
  \<^verbatim>\<open>pmch_bandwidth\<close> when that value is nonzero and leaves it otherwise, and
  \<^verbatim>\<open>set_nof_mbsfn_prb\<close> sets it to its argument; neither changes \<^verbatim>\<open>nof_prb\<close> nor compares the
  new value with it, so afterwards \<^verbatim>\<open>mbsfn_prb\<close> is at most \<^verbatim>\<open>nof_prb\<close> exactly when the value
  that was written (the old value, for \<^verbatim>\<open>pmch_bandwidth\<close> 0) is at most \<^verbatim>\<open>nof_prb\<close>.
\<close>

theorem mbsfn_prb_updates:
  "(cell_search a s = Inr (True, s') \<longrightarrow> mbsfn_prb (m_cell s') = nof_prb (m_cell s')) \<and>
   nof_prb (m_cell (set_mch_scheduling_info g g16 s sib13)) = nof_prb (m_cell s) \<and>
   mbsfn_prb (m_cell (set_mch_scheduling_info g g16 s sib13)) =
     (if pmch_bandwidth (mbsfn_area_info_list sib13 0) \<noteq> 0
      then ucast (pmch_bandwidth (mbsfn_area_info_list sib13 0))
      else mbsfn_prb (m_cell s)) \<and>
   (mbsfn_prb (m_cell (set_mch_scheduling_info g g16 s sib13))
      \<le> nof_prb (m_cell (set_mch_scheduling_info g g16 s sib13)) \<longleftrightarrow>
    (if pmch_bandwidth (mbsfn_area_info_list sib13 0) \<noteq> 0
     then ucast (pmch_bandwidth (mbsfn_area_info_list sib13 0)) \<le> nof_prb (m_cell s)
     else mbsfn_prb (m_cell s) \<le> nof_prb (m_cell s))) \<and>
   nof_prb (m_cell (set_nof_mbsfn_prb s prb)) = nof_prb (m_cell s) \<and>
   mbsfn_prb (m_cell (set_nof_mbsfn_prb s prb)) = ucast prb \<and>
   (mbsfn_prb (m_cell (set_nof_mbsfn_prb s prb)) \<le> nof_prb (m_cell (set_nof_mbsfn_prb s prb))
      \<longleftrightarrow> ucast prb \<le> nof_prb (m_cell s))"
proof -
  have search: "cell_search a s = Inr (True, s') \<longrightarrow> mbsfn_prb (m_cell s') = nof_prb (m_cell s')"
    by (auto simp: cell_search_def Let_def split: if_splits prod.splits
          dest: cell_search_finish_prb)
  have sched: "nof_prb (m_cell (set_mch_scheduling_info g g16 s sib13)) = nof_prb (m_cell s) \<and>
     mbsfn_prb (m_cell (set_mch_scheduling_info g g16 s sib13)) =
     (if pmch_bandwidth (mbsfn_area_info_list sib13 0) \<noteq> 0
      then ucast (pmch_bandwidth (mbsfn_area_info_list sib13 0))
      else mbsfn_prb (m_cell s))"
    by (simp add: set_mch_scheduling_info_def Let_def)
  have setter: "nof_prb (m_cell (set_nof_mbsfn_prb s prb)) = nof_prb (m_cell s) \<and>
     mbsfn_prb (m_cell (set_nof_mbsfn_prb s prb)) = ucast prb"
    by (simp add: set_nof_mbsfn_prb_def)
  from search sched setter show ?thesis by simp
qed

theorem mbsfn_prb_updates_witness:
  "cell_search scenario_search (scenario_phy True True [])
     = Inr (True, scenario_phy True True []) \<and>
   mbsfn_prb (m_cell (scenario_phy True True [])) = nof_prb (m_cell (scenario_phy True True []))"
  using mbsfn_prb_updates [of scenario_search "scenario_phy True True []"
      "scenario_phy True True []"] cell_search_scenario
  by simp

section \<open>The scheduling engine, by cases\<close>

declare pmch_loop.simps [simp del]

lemma pmch_loop_skip:
  assumes "i \<le> k" and "k \<le> nof_pmch_info (m_mcch s)"
    and "\<forall>j. i \<le> j \<and> j < k \<longrightarrow>
           mch_sched_period (pmch_info_list (m_mcch s) ! j) \<noteq> 0 \<and> \<not> in_window s tti j"
  shows "pmch_loop s (frame_number tti) (subframe_index tti) i cfg area
           = pmch_loop s (frame_number tti) (subframe_index tti) k cfg area"
  using assms
proof (induction k rule: dec_induct)
  case base
  show ?case by simp
next
  case (step n)
  have "pmch_loop s (frame_number tti) (subframe_index tti) i cfg area
          = pmch_loop s (frame_number tti) (subframe_index tti) n cfg area"
    using step by simp
  also have "\<dots> = pmch_loop s (frame_number tti) (subframe_index tti) (Suc n) cfg area"
    using step.prems step.hyps
    by (subst pmch_loop.simps)
       (simp add: Let_def in_window_def alloc_index_def period_frame_def)
  finally show ?case .
qed

lemma pmch_loop_end:
  "pmch_loop s sfn sf (nof_pmch_info (m_mcch s)) cfg area = Inr (cfg, area)"
  by (subst pmch_loop.simps) simp

lemma pmch_loop_hit:
  assumes "k < nof_pmch_info (m_mcch s)"
    and "mch_sched_period (pmch_info_list (m_mcch s) ! k) \<noteq> 0"
    and "in_window s tti k"
  shows "pmch_loop s (frame_number tti) (subframe_index tti) k cfg area
           = Inr (cfg\<lparr>mbsfn_mcs :=
                      (if signalling_subframe s tti k
                            then sig_mcs (mcch_cfg (mbsfn_area_info_list (m_sib13 s) 0))
                            else data_mcs (pmch_info_list (m_mcch s) ! k)),
                     enable := True\<rparr>, k)"
  using assms
  by (subst pmch_loop.simps)
     (simp add: Let_def in_window_def alloc_index_def period_frame_def signalling_subframe_def
        cong: conj_cong)

lemma pmch_loop_zero_period:
  assumes "k < nof_pmch_info (m_mcch s)"
    and "mch_sched_period (pmch_info_list (m_mcch s) ! k) = 0"
  shows "pmch_loop s sfn sf k cfg area = Inl Modulo_by_zero"
  using assms by (subst pmch_loop.simps) simp

lemma pmch_loop_first:
  assumes "k < nof_pmch_info (m_mcch s)"
    and "\<forall>j \<le> k. mch_sched_period (pmch_info_list (m_mcch s) ! j) \<noteq> 0"
    and "in_window s tti k"
    and "\<forall>j < k. \<not> in_window s tti j"
  shows "pmch_loop s (frame_number tti) (subframe_index tti) 0 (base_cfg s uninit) area
           = Inr (channel_cfg s uninit tti k, k)"
proof -
  have "pmch_loop s (frame_number tti) (subframe_index tti) 0 (base_cfg s uninit) area
          = pmch_loop s (frame_number tti) (subframe_index tti) k (base_cfg s uninit) area"
    using assms by (intro pmch_loop_skip) auto
  also have "\<dots> = Inr (channel_cfg s uninit tti k, k)"
    using assms by (simp add: pmch_loop_hit channel_cfg_def)
  finally show ?thesis .
qed

lemma pmch_loop_none:
  assumes "\<forall>j < nof_pmch_info (m_mcch s).
             mch_sched_period (pmch_info_list (m_mcch s) ! j) \<noteq> 0 \<and> \<not> in_window s tti j"
  shows "pmch_loop s (frame_number tti) (subframe_index tti) 0 cfg area = Inr (cfg, area)"
proof -
  have "pmch_loop s (frame_number tti) (subframe_index tti) 0 cfg area
          = pmch_loop s (frame_number tti) (subframe_index tti) (nof_pmch_info (m_mcch s)) cfg area"
    using assms by (intro pmch_loop_skip) auto
  then show ?thesis by (simp add: pmch_loop_end)
qed

lemma mbsfn_config_for_tti_unfold:
  "mbsfn_config_for_tti s uninit tti area =
     (if \<not> m_mcch_configured s
      then Inr (uninit\<lparr>enable := False, is_mcch := False\<rparr>, area, s)
      else if mcch_repeat_period (mcch_cfg (mbsfn_area_info_list (m_sib13 s) 0)) = 0
      then Inl Modulo_by_zero
      else if mcch_slot s tti then
        (if m_decode_mcch s
         then Inr ((base_cfg s uninit)\<lparr>mbsfn_mcs :=
                       (sig_mcs (mcch_cfg (mbsfn_area_info_list (m_sib13 s) 0))),
                     enable := True, is_mcch := True\<rparr>, area, s)
         else Inr (base_cfg s uninit, area, s))
      else if m_mch_configured s then
        (case pmch_loop s (frame_number tti) (subframe_index tti) 0 (base_cfg s uninit) area of
           Inl e \<Rightarrow> Inl e
         | Inr (cfg', area') \<Rightarrow> Inr (cfg', area', s))
      else Inr (base_cfg s uninit, area, s))"
  by (cases uninit)
     (simp add: mbsfn_config_for_tti_def Let_def mcch_slot_def frame_number_def
        subframe_index_def base_cfg_def)


lemma pmch_loop_Inr:
  assumes "pmch_loop s sfn sf i cfg0 area = Inr (cfg, a)"
    and "sfn = frame_number tti" and "sf = subframe_index tti"
  shows "(cfg = cfg0 \<and> a = area \<and>
            (\<forall>j. i \<le> j \<and> j < nof_pmch_info (m_mcch s) \<longrightarrow> \<not> in_window s tti j)) \<or>
         (i \<le> a \<and> a < nof_pmch_info (m_mcch s) \<and> in_window s tti a \<and>
            (\<forall>j. i \<le> j \<and> j < a \<longrightarrow> \<not> in_window s tti j) \<and>
            cfg = cfg0\<lparr>mbsfn_mcs :=
                      (if signalling_subframe s tti a
                            then sig_mcs (mcch_cfg (mbsfn_area_info_list (m_sib13 s) 0))
                            else data_mcs (pmch_info_list (m_mcch s) ! a)),
                     enable := True\<rparr>)"
  using assms
proof (induction s sfn sf i cfg0 area rule: pmch_loop.induct)
  case (1 s sfn sf i cfg0 area)
  show ?case
  proof (cases "i < nof_pmch_info (m_mcch s)")
    case False
    then have "pmch_loop s sfn sf i cfg0 area = Inr (cfg0, area)"
      by (subst pmch_loop.simps) simp
    with "1.prems" have "cfg = cfg0 \<and> a = area" by simp
    moreover have "\<forall>j. i \<le> j \<and> j < nof_pmch_info (m_mcch s) \<longrightarrow> \<not> in_window s tti j"
      using False by auto
    ultimately show ?thesis by blast
  next
    case inside: True
    show ?thesis
    proof (cases "mch_sched_period (pmch_info_list (m_mcch s) ! i) = 0")
      case True
      with inside "1.prems" show ?thesis
        by (simp add: pmch_loop_zero_period)
    next
      case nz: False
      show ?thesis
      proof (cases "in_window s tti i")
        case True
        with inside nz "1.prems" have "a = i" and "cfg = cfg0\<lparr>mbsfn_mcs :=
                      (if signalling_subframe s tti i
                            then sig_mcs (mcch_cfg (mbsfn_area_info_list (m_sib13 s) 0))
                            else data_mcs (pmch_info_list (m_mcch s) ! i)),
                     enable := True\<rparr>"
          by (auto simp add: pmch_loop_hit)
        moreover have "\<forall>j. i \<le> j \<and> j < i \<longrightarrow> \<not> in_window s tti j" by auto
        ultimately show ?thesis using True inside by blast
      next
        case miss: False
        have next_eq: "pmch_loop s sfn sf i cfg0 area = pmch_loop s sfn sf (i + 1) cfg0 area"
          using inside nz miss "1.prems"(2,3)
          by (subst pmch_loop.simps)
             (simp add: Let_def in_window_def alloc_index_def period_frame_def)
        have miss': "\<not> sf_idx (mbms_dedicated (m_cell s))
                        (sfn mod mch_sched_period (pmch_info_list (m_mcch s) ! i)) sf
                      \<le> ucast (sf_alloc_end (pmch_info_list (m_mcch s) ! i))"
          using miss "1.prems"(2,3)
          by (simp add: in_window_def alloc_index_def period_frame_def)
        have ih: "(cfg = cfg0 \<and> a = area \<and>
            (\<forall>j. i + 1 \<le> j \<and> j < nof_pmch_info (m_mcch s) \<longrightarrow> \<not> in_window s tti j)) \<or>
         (i + 1 \<le> a \<and> a < nof_pmch_info (m_mcch s) \<and> in_window s tti a \<and>
            (\<forall>j. i + 1 \<le> j \<and> j < a \<longrightarrow> \<not> in_window s tti j) \<and>
            cfg = cfg0\<lparr>mbsfn_mcs :=
                      (if signalling_subframe s tti a
                            then sig_mcs (mcch_cfg (mbsfn_area_info_list (m_sib13 s) 0))
                            else data_mcs (pmch_info_list (m_mcch s) ! a)),
                     enable := True\<rparr>)"
          using "1.IH" [OF inside refl nz refl refl miss'] "1.prems" next_eq by simp
        have step: "\<And>j. i \<le> j \<Longrightarrow> j = i \<or> i + 1 \<le> j" by arith
        from ih show ?thesis
        proof
          assume l: "cfg = cfg0 \<and> a = area \<and>
            (\<forall>j. i + 1 \<le> j \<and> j < nof_pmch_info (m_mcch s) \<longrightarrow> \<not> in_window s tti j)"
          then have "\<forall>j. i \<le> j \<and> j < nof_pmch_info (m_mcch s) \<longrightarrow> \<not> in_window s tti j"
            using miss step by blast
          with l show ?thesis by blast
        next
          assume r: "i + 1 \<le> a \<and> a < nof_pmch_info (m_mcch s) \<and> in_window s tti a \<and>
            (\<forall>j. i + 1 \<le> j \<and> j < a \<longrightarrow> \<not> in_window s tti j) \<and>
            cfg = cfg0\<lparr>mbsfn_mcs :=
                      (if signalling_subframe s tti a
                            then sig_mcs (mcch_cfg (mbsfn_area_info_list (m_sib13 s) 0))
                            else data_mcs (pmch_info_list (m_mcch s) ! a)),
                     enable := True\<rparr>"
          then have "\<forall>j. i \<le> j \<and> j < a \<longrightarrow> \<not> in_window s tti j"
            using miss step by blast
          moreover from r have "i \<le> a" by simp
          ultimately show ?thesis using r by blast
        qed
      qed
    qed
  qed
qed

lemma uint_subframe_index: "uint (subframe_index tti) = uint tti mod 10"
proof -
  have "uint (tti mod 10) = uint tti mod 10" by (simp add: uint_mod_distrib)
  moreover have "uint tti mod 10 < 256" 
    by (rule less_trans [where y = 10]) simp_all
  moreover have "0 \<le> uint tti mod 10" by simp
  ultimately show ?thesis
    by (simp add: subframe_index_def unsigned_ucast_eq take_bit_eq_mod)
qed

lemma uint_period_frame:
  "uint (period_frame s tti i)
     = (uint tti div 10) mod uint (mch_sched_period (pmch_info_list (m_mcch s) ! i))"
  by (simp add: period_frame_def frame_number_def uint_mod_distrib uint_div_distrib)

lemma uint_sf_idx:
  "uint (sf_idx d fn sf) =
     (if d then (uint fn * 10 + uint sf - uint fn div 4 - 1) mod 2 ^ 32
      else (uint fn * 6 + (if uint sf < 6 then uint sf - 1 else uint sf - 3)) mod 2 ^ 32)"
proof -
  have lt: "(sf < 6) = (uint sf < 6)" by (simp add: word_less_def)
  have uc: "uint (ucast sf :: u32) = uint sf"
    by (simp add: uint_up_ucast is_up)
  show ?thesis
    by (simp add: sf_idx_def lt uint_word_ariths uint_div_distrib uc take_bit_eq_mod
          mod_simps)
qed

lemma index_range:
  fixes p q :: int
  assumes "0 \<le> p" and "0 \<le> q" and "q < 10" and "p \<noteq> 0 \<or> q \<noteq> 0"
    and "p * 10 + q < m"
  shows "0 \<le> p * 10 + q - p div 4 - 1" and "p * 10 + q - p div 4 - 1 < m"
    and "0 \<le> p * 6 + (if q < 6 then q - 1 else q - 3)"
    and "p * 6 + (if q < 6 then q - 1 else q - 3) < m"
  using assms by (auto split: if_splits)

lemma alloc_index_exact:
  assumes "\<not> (period_frame s tti i = 0 \<and> subframe_index tti = 0)"
  shows "uint (alloc_index s tti i) =
           (if mbms_dedicated (m_cell s)
            then uint (period_frame s tti i) * 10 + uint (subframe_index tti)
                   - uint (period_frame s tti i) div 4 - 1
            else uint (period_frame s tti i) * 6
                   + (if uint (subframe_index tti) < 6 then uint (subframe_index tti) - 1
                      else uint (subframe_index tti) - 3))"
proof -
  let ?pf = "uint (period_frame s tti i)" and ?sf = "uint (subframe_index tti)"
  have sf: "?sf = uint tti mod 10" by (rule uint_subframe_index)
  have pf_le: "?pf \<le> uint tti div 10"
  proof -
    have "uint (frame_number tti mod mch_sched_period (pmch_info_list (m_mcch s) ! i))
            \<le> uint (frame_number tti)"
      by (simp add: uint_mod_distrib zmod_le_nonneg_dividend)
    then show ?thesis by (simp add: period_frame_def frame_number_def uint_div_distrib)
  qed
  have tti: "uint tti < 2 ^ 32" using uint_bounded [of tti] by simp
  have nonneg: "0 \<le> ?pf" "0 \<le> ?sf" "?sf < 10" by (simp_all add: sf)
  have nz: "?pf \<noteq> 0 \<or> ?sf \<noteq> 0"
    using assms by (simp add: word_uint_eq_iff)
  have up: "?pf * 10 + ?sf < 2 ^ 32"
  proof -
    have "uint tti div 10 * 10 + uint tti mod 10 = uint tti" by simp
    moreover have "?pf * 10 \<le> uint tti div 10 * 10" using pf_le by simp
    ultimately show ?thesis using tti sf by linarith
  qed
  note r = index_range [OF nonneg(1,2,3) nz up]
  have ded: "0 \<le> ?pf * 10 + ?sf - ?pf div 4 - 1" "?pf * 10 + ?sf - ?pf div 4 - 1 < 2 ^ 32"
    by (rule r(1), rule r(2))
  have mix: "0 \<le> ?pf * 6 + (if ?sf < 6 then ?sf - 1 else ?sf - 3)"
    "?pf * 6 + (if ?sf < 6 then ?sf - 1 else ?sf - 3) < 2 ^ 32"
    by (rule r(3), rule r(4))
  show ?thesis
  proof (cases "mbms_dedicated (m_cell s)")
    case True
    then show ?thesis
      using ded by (simp add: alloc_index_def uint_sf_idx)
  next
    case False
    then show ?thesis
      using mix by (simp only: alloc_index_def uint_sf_idx if_False) (simp)
  qed
qed

lemma periods_nonzero_nth:
  "periods_nonzero s \<Longrightarrow> j < nof_pmch_info (m_mcch s) \<Longrightarrow>
     mch_sched_period (pmch_info_list (m_mcch s) ! j) \<noteq> 0"
  by (simp add: periods_nonzero_def nof_pmch_info_def list_all_length)

lemma periods_nonzero_rep:
  "periods_nonzero s \<Longrightarrow> mcch_repeat_period (mcch_cfg (mbsfn_area_info_list (m_sib13 s) 0)) \<noteq> 0"
  by (simp add: periods_nonzero_def)

lemma config_first_match:
  assumes "m_mcch_configured s" and "periods_nonzero s" and "\<not> mcch_slot s tti"
    and "m_mch_configured s" and "k < nof_pmch_info (m_mcch s)"
    and "in_window s tti k" and "\<forall>j < k. \<not> in_window s tti j"
  shows "mbsfn_config_for_tti s uninit tti area = Inr (channel_cfg s uninit tti k, k, s)"
proof -
  have "\<forall>j \<le> k. mch_sched_period (pmch_info_list (m_mcch s) ! j) \<noteq> 0"
  proof (intro allI impI)
    fix j assume "j \<le> k"
    then have "j < nof_pmch_info (m_mcch s)" using assms(5) by simp
    with assms(2) show "mch_sched_period (pmch_info_list (m_mcch s) ! j) \<noteq> 0"
      by (rule periods_nonzero_nth)
  qed
  then have "pmch_loop s (frame_number tti) (subframe_index tti) 0 (base_cfg s uninit) area
          = Inr (channel_cfg s uninit tti k, k)"
    using assms by (intro pmch_loop_first) auto
  then show ?thesis
    using assms by (simp add: mbsfn_config_for_tti_unfold periods_nonzero_rep)
qed

lemma config_no_match:
  assumes "m_mcch_configured s" and "periods_nonzero s" and "\<not> mcch_slot s tti"
    and "\<not> m_mch_configured s \<or> (\<forall>j < nof_pmch_info (m_mcch s). \<not> in_window s tti j)"
  shows "mbsfn_config_for_tti s uninit tti area = Inr (base_cfg s uninit, area, s)"
proof (cases "m_mch_configured s")
  case False
  with assms show ?thesis
    by (simp add: mbsfn_config_for_tti_unfold periods_nonzero_rep)
next
  case True
  with assms have "\<forall>j < nof_pmch_info (m_mcch s).
      mch_sched_period (pmch_info_list (m_mcch s) ! j) \<noteq> 0 \<and> \<not> in_window s tti j"
    using periods_nonzero_nth [OF assms(2)] by blast
  then have "pmch_loop s (frame_number tti) (subframe_index tti) 0 (base_cfg s uninit) area
          = Inr (base_cfg s uninit, area)"
    by (rule pmch_loop_none)
  with True assms show ?thesis
    by (simp add: mbsfn_config_for_tti_unfold periods_nonzero_rep)
qed

lemma config_assigned:
  assumes "mbsfn_config_for_tti s uninit tti area = Inr (cfg, i, s')"
    and "enable cfg" and "\<not> is_mcch cfg"
  shows "i < nof_pmch_info (m_mcch s) \<and> in_window s tti i \<and>
         (\<forall>j < i. \<not> in_window s tti j) \<and> cfg = channel_cfg s uninit tti i \<and> s' = s"
proof -
  have conf: "m_mcch_configured s"
    using assms by (auto simp: mbsfn_config_for_tti_unfold split: if_splits)
  have rep: "mcch_repeat_period (mcch_cfg (mbsfn_area_info_list (m_sib13 s) 0)) \<noteq> 0"
    using assms conf by (auto simp: mbsfn_config_for_tti_unfold split: if_splits)
  have noslot: "\<not> mcch_slot s tti"
    using assms conf rep
    by (auto simp: mbsfn_config_for_tti_unfold base_cfg_def split: if_splits)
  have mch: "m_mch_configured s"
    using assms conf rep noslot
    by (auto simp: mbsfn_config_for_tti_unfold base_cfg_def split: if_splits)
  have loop: "pmch_loop s (frame_number tti) (subframe_index tti) 0 (base_cfg s uninit) area = Inr (cfg, i)"
    and st: "s' = s"
    using assms conf rep noslot mch
    by (auto simp: mbsfn_config_for_tti_unfold split: sum.splits)
  from pmch_loop_Inr [OF loop refl refl] assms(2) show ?thesis
    using st by (auto simp: base_cfg_def channel_cfg_def)
qed

lemma mcch_slot_iff:
  "mcch_slot s tti \<longleftrightarrow>
     (uint tti div 10) mod uint (mcch_repeat_period (mcch_cfg (mbsfn_area_info_list (m_sib13 s) 0)))
        = uint (mcch_offset (mcch_cfg (mbsfn_area_info_list (m_sib13 s) 0))) \<and>
     m_mcch_table s (unat tti mod 10) = 1"
proof -
  have sf: "unat (subframe_index tti) = unat tti mod 10"
    using uint_subframe_index [of tti]
    by (metis nat_int of_nat_mod of_nat_numeral uint_nat)
  have off: "uint (ucast (mcch_offset (mcch_cfg (mbsfn_area_info_list (m_sib13 s) 0))) :: u32)
               = uint (mcch_offset (mcch_cfg (mbsfn_area_info_list (m_sib13 s) 0)))"
    by (simp add: uint_up_ucast is_up)
  show ?thesis
    by (simp add: mcch_slot_def Let_def sf word_uint_eq_iff off frame_number_def
          uint_mod_distrib uint_div_distrib)
qed

lemma config_total:
  assumes "periods_nonzero s"
  shows "\<exists>cfg area'. mbsfn_config_for_tti s uninit tti area = Inr (cfg, area', s)"
proof (cases "m_mcch_configured s \<and> \<not> mcch_slot s tti \<and> m_mch_configured s")
  case False
  with assms show ?thesis
    by (auto simp: mbsfn_config_for_tti_unfold periods_nonzero_rep)
next
  case True
  show ?thesis
  proof (cases "\<exists>j < nof_pmch_info (m_mcch s). in_window s tti j")
    case False
    with True assms have "mbsfn_config_for_tti s uninit tti area = Inr (base_cfg s uninit, area, s)"
      by (intro config_no_match) auto
    then show ?thesis by blast
  next
    case ex: True
    define k where "k = (LEAST j. j < nof_pmch_info (m_mcch s) \<and> in_window s tti j)"
    from ex have "\<exists>j. j < nof_pmch_info (m_mcch s) \<and> in_window s tti j" by blast
    then have k: "k < nof_pmch_info (m_mcch s) \<and> in_window s tti k"
      unfolding k_def by (rule LeastI_ex)
    have first: "\<forall>j < k. \<not> in_window s tti j"
    proof (intro allI impI)
      fix j assume "j < k"
      then have "\<not> (j < nof_pmch_info (m_mcch s) \<and> in_window s tti j)"
        unfolding k_def by (rule not_less_Least)
      moreover have "j < nof_pmch_info (m_mcch s)" using \<open>j < k\<close> k by simp
      ultimately show "\<not> in_window s tti j" by simp
    qed
    from True assms k first
    have "mbsfn_config_for_tti s uninit tti area = Inr (channel_cfg s uninit tti k, k, s)"
      by (intro config_first_match) auto
    then show ?thesis by blast
  qed
qed

lemma uint_minus_one_u32: "uint (- 1 :: u32) = 4294967295"
  by (simp add: unsigned_minus_1_eq_mask mask_eq_exp_minus_1)

lemma sf_idx_underflow: "sf_idx d 0 0 = - 1"
  by (simp add: sf_idx_def)

lemma minus_one_not_le_ucast16: "\<not> (- 1 :: u32) \<le> ucast (e :: u16)"
proof -
  have "uint (ucast e :: u32) = uint e" by (simp add: uint_up_ucast is_up)
  moreover have "uint e < 2 ^ 16" using uint_bounded [of e] by simp
  ultimately have "uint (ucast e :: u32) < uint (- 1 :: u32)"
    by (simp add: uint_minus_one_u32)
  then show ?thesis by (simp add: word_le_def)
qed

lemma alloc_index_underflow:
  "subframe_index tti = 0 \<Longrightarrow> period_frame s tti j = 0 \<Longrightarrow> alloc_index s tti j = - 1"
  by (simp add: alloc_index_def sf_idx_underflow)

lemma underflow_not_in_window:
  "subframe_index tti = 0 \<Longrightarrow> period_frame s tti j = 0 \<Longrightarrow> \<not> in_window s tti j"
  by (simp add: in_window_def alloc_index_underflow minus_one_not_le_ucast16)

lemma config_state:
  "mbsfn_config_for_tti s uninit tti a = Inr (cfg, r, s') \<Longrightarrow> s' = s"
  by (auto simp: mbsfn_config_for_tti_unfold split: if_splits sum.splits)

lemma calls_state: "calls s a ts = Inr (a1, s1) \<Longrightarrow> s1 = s"
proof (induction ts arbitrary: s a)
  case Nil
  then show ?case by simp
next
  case (Cons t ts)
  then show ?case
    by (cases t) (auto split: sum.splits dest: config_state)
qed

lemma pmch_loop_stack:
  "\<not> enable cfg \<Longrightarrow>
   pmch_loop s sfn sf i cfg' a' =
     (case pmch_loop s sfn sf i cfg a of
        Inl e \<Rightarrow> Inl e
      | Inr (c, r) \<Rightarrow>
          if enable c then Inr (cfg'\<lparr>mbsfn_mcs := mbsfn_mcs c, enable := True\<rparr>, r)
          else Inr (cfg', a'))"
proof (induction s sfn sf i cfg a rule: pmch_loop.induct)
  case (1 s sfn sf i cfg area)
  show ?case
    apply (subst pmch_loop.simps [of s sfn sf i cfg' a'])
    apply (subst pmch_loop.simps [of s sfn sf i cfg area])
    using 1 by (simp add: Let_def cong: conj_cong)
qed

lemma pmch_loop_is_mcch:
  "pmch_loop s sfn sf i cfg a = Inr (c, r) \<Longrightarrow> is_mcch c = is_mcch cfg"
proof (induction s sfn sf i cfg a rule: pmch_loop.induct)
  case (1 s sfn sf i cfg area)
  from "1.prems" show ?case
    apply (subst (asm) pmch_loop.simps)
    using "1.IH" by (auto simp: Let_def split: if_splits)
qed

lemma pmch_loop_fields:
  "pmch_loop s sfn sf i cfg a = Inr (c, r) \<Longrightarrow>
   cfg_mbsfn_area_id c = cfg_mbsfn_area_id cfg \<and>
   non_mbsfn_region_length c = non_mbsfn_region_length cfg"
proof (induction s sfn sf i cfg a rule: pmch_loop.induct)
  case (1 s sfn sf i cfg area)
  from "1.prems" show ?case
    apply (subst (asm) pmch_loop.simps)
    using "1.IH" by (auto simp: Let_def split: if_splits)
qed

lemma config_stack:
  "mbsfn_config_for_tti s u' tti a' =
     (case mbsfn_config_for_tti s u tti a of
        Inl e \<Rightarrow> Inl e
      | Inr (c, r, s') \<Rightarrow>
          Inr (u'\<lparr>enable := enable c, is_mcch := is_mcch c,
                  cfg_mbsfn_area_id :=
                    if m_mcch_configured s then cfg_mbsfn_area_id c else cfg_mbsfn_area_id u',
                  non_mbsfn_region_length :=
                    if m_mcch_configured s then non_mbsfn_region_length c
                    else non_mbsfn_region_length u',
                  mbsfn_mcs := if enable c then mbsfn_mcs c else mbsfn_mcs u'\<rparr>,
               if enable c \<and> \<not> is_mcch c then r else a', s'))"
proof -
  have ne: "\<not> enable (base_cfg s u)" and nm: "\<not> is_mcch (base_cfg s u)"
    by (simp_all add: base_cfg_def)
  have loop: "pmch_loop s (frame_number tti) (subframe_index tti) 0 (base_cfg s u') a' =
     (case pmch_loop s (frame_number tti) (subframe_index tti) 0 (base_cfg s u) a of
        Inl e \<Rightarrow> Inl e
      | Inr (c, r) \<Rightarrow>
          if enable c then Inr ((base_cfg s u')\<lparr>mbsfn_mcs := mbsfn_mcs c, enable := True\<rparr>, r)
          else Inr (base_cfg s u', a'))"
    by (rule pmch_loop_stack [OF ne])
  have shape: "\<not> is_mcch c \<and>
      cfg_mbsfn_area_id c = mbsfn_area_id (mbsfn_area_info_list (m_sib13 s) 0) \<and>
      non_mbsfn_region_length c = non_mbsfn_region_len (mbsfn_area_info_list (m_sib13 s) 0)"
    if "pmch_loop s (frame_number tti) (subframe_index tti) 0 (base_cfg s u) a = Inr (c, r)"
    for c r
    using pmch_loop_is_mcch [OF that] pmch_loop_fields [OF that]
    by (simp add: base_cfg_def)
  show ?thesis
    unfolding mbsfn_config_for_tti_unfold [of s u'] mbsfn_config_for_tti_unfold [of s u] loop
    using shape by (cases u') (auto simp: base_cfg_def split: sum.splits)
qed

section \<open>Concrete configurations, evaluated\<close>

lemma scenario_flags:
  "m_mcch_configured (scenario_phy d m chans)" "m_mch_configured (scenario_phy d m chans)"
  "m_decode_mcch (scenario_phy d m chans) = m"
  "mbms_dedicated (m_cell (scenario_phy d m chans)) = d"
  "nof_pmch_info (m_mcch (scenario_phy d m chans)) = length chans"
  "pmch_info_list (m_mcch (scenario_phy d m chans)) = chans"
  "mbsfn_area_info_list (m_sib13 (scenario_phy d m chans)) 0 = scenario_area_info"
  "m_mcch_table (scenario_phy d m chans) j = (if j = 0 then 1 else 0)"
  by (simp_all add: scenario_phy_def nof_pmch_info_def)

lemma scenario_periods:
  "periods_nonzero (scenario_phy d m chans) = list_all (\<lambda>p. mch_sched_period p \<noteq> 0) chans"
  by (simp add: periods_nonzero_def scenario_flags scenario_area_info_def)


lemmas scenario_eval =
  mcch_slot_def in_window_def alloc_index_def period_frame_def scenario_flags
  scenario_area_info_def frame_number_def subframe_index_def channel_def sf_idx_def
  scenario_periods signalling_subframe_def

section \<open>Properties of the scheduling engine\<close>

text \<open>
  Claim C1, as stated, fails at a TTI with subframe index 0 in frame 0 of a channel's
  scheduling period. A multicast-dedicated cell with one channel of period 8 frames and
  \<^verbatim>\<open>sf_alloc_end\<close> 5, TTI 80: the TTI reaches the multicast-channel check, frameNumber is 8,
  subframeIndex 0 and periodFrame 0, so the claim's expression
  periodFrame * 10 + subframeIndex - periodFrame div 4 - 1 is -1, which is at most 5, and
  the claim assigns the TTI to channel 0. The code computes the index in unsigned 32-bit
  arithmetic: it is 4294967295, above 5, no channel matches, and the decision is disabled with
  \<^verbatim>\<open>area\<close> left as passed.
\<close>

theorem channel_check_counterexample:
  "m_mcch_configured (scenario_phy True True [channel 8 5 5]) \<and>
   periods_nonzero (scenario_phy True True [channel 8 5 5]) \<and>
   \<not> mcch_slot (scenario_phy True True [channel 8 5 5]) 80 \<and>
   m_mch_configured (scenario_phy True True [channel 8 5 5]) \<and>
   nof_pmch_info (m_mcch (scenario_phy True True [channel 8 5 5])) = 1 \<and>
   uint (frame_number 80) = 8 \<and> uint (subframe_index 80) = 0 \<and>
   uint (period_frame (scenario_phy True True [channel 8 5 5]) 80 0) = 0 \<and>
   uint (period_frame (scenario_phy True True [channel 8 5 5]) 80 0) * 10
     + uint (subframe_index 80)
     - uint (period_frame (scenario_phy True True [channel 8 5 5]) 80 0) div 4 - 1 = - 1 \<and>
   uint (sf_alloc_end (pmch_info_list (m_mcch (scenario_phy True True [channel 8 5 5])) ! 0)) = 5 \<and>
   uint (period_frame (scenario_phy True True [channel 8 5 5]) 80 0) * 10
     + uint (subframe_index 80)
     - uint (period_frame (scenario_phy True True [channel 8 5 5]) 80 0) div 4 - 1
     \<le> uint (sf_alloc_end (pmch_info_list (m_mcch (scenario_phy True True [channel 8 5 5])) ! 0)) \<and>
   uint (alloc_index (scenario_phy True True [channel 8 5 5]) 80 0) = 4294967295 \<and>
   \<not> in_window (scenario_phy True True [channel 8 5 5]) 80 0 \<and>
   mbsfn_config_for_tti (scenario_phy True True [channel 8 5 5]) (stack_contents 0xAA) 80 5
     = Inr (\<lparr>cfg_mbsfn_area_id = 7, non_mbsfn_region_length = 1, mbsfn_mcs = 0xAA,
             enable = False, is_mcch = False\<rparr>, 5, scenario_phy True True [channel 8 5 5])"
proof -
  let ?S = "scenario_phy True True [channel 8 5 5]"
  have h: "m_mcch_configured ?S" "periods_nonzero ?S" "\<not> mcch_slot ?S 80" "m_mch_configured ?S"
    "nof_pmch_info (m_mcch ?S) = 1"
    by (simp_all add: scenario_eval)
  have z: "subframe_index 80 = 0" "period_frame ?S 80 0 = 0"
    by (simp_all add: scenario_eval)
  have fn: "uint (frame_number 80) = 8" by (simp add: frame_number_def)
  have e: "uint (sf_alloc_end (pmch_info_list (m_mcch ?S) ! 0)) = 5"
    by (simp add: scenario_eval)
  have idx: "uint (alloc_index ?S 80 0) = 4294967295"
    using alloc_index_underflow [OF z] by (simp add: uint_minus_one_u32)
  have out: "\<not> in_window ?S 80 0" using z by (rule underflow_not_in_window)
  have "mbsfn_config_for_tti ?S (stack_contents 0xAA) 80 5
          = Inr (base_cfg ?S (stack_contents 0xAA), 5, ?S)"
    using out by (intro config_no_match) (simp_all add: scenario_eval)
  moreover have "base_cfg ?S (stack_contents 0xAA) =
      \<lparr>cfg_mbsfn_area_id = 7, non_mbsfn_region_length = 1, mbsfn_mcs = 0xAA,
       enable = False, is_mcch = False\<rparr>"
    by (simp add: base_cfg_def stack_contents_def scenario_eval)
  ultimately have r: "mbsfn_config_for_tti ?S (stack_contents 0xAA) 80 5
     = Inr (\<lparr>cfg_mbsfn_area_id = 7, non_mbsfn_region_length = 1, mbsfn_mcs = 0xAA,
             enable = False, is_mcch = False\<rparr>, 5, ?S)"
    by simp
  from h fn e idx out r show ?thesis unfolding z by simp
qed

text \<open>
  Claim C1, amended. Take a TTI that reaches the multicast-channel check: MCCH is
  configured, the MCCH slot does not match and the multicast channels are configured (no
  period being zero). With frameNumber = tti div 10, subframeIndex = tti mod 10 and
  periodFrame(i) = frameNumber mod schedulingPeriod(i), the allocation index of channel \<open>i\<close>
  is, in the unsigned 32-bit arithmetic of the code, periodFrame * 10 + subframeIndex -
  periodFrame div 4 - 1 for a multicast-dedicated cell and periodFrame * 6 +
  (subframeIndex - 1 if subframeIndex < 6, else subframeIndex - 3) for a mixed cell: the
  value of the expression modulo 2^32. That is the value of the expression itself unless
  periodFrame and subframeIndex are both 0; there the index is 2^32 - 1 and is above every
  \<^verbatim>\<open>sf_alloc_end\<close>. The TTI is assigned to the first channel \<open>k\<close> in declared order whose
  allocation index is at most its \<^verbatim>\<open>sf_alloc_end\<close>, whatever the channels after \<open>k\<close> are: the
  decision is enabled and \<^verbatim>\<open>area\<close> is \<open>k\<close>. If no channel matches, the decision is disabled
  and \<^verbatim>\<open>area\<close> is left as the caller passed it.
\<close>

theorem channel_check:
  assumes "m_mcch_configured s" and "periods_nonzero s" and "\<not> mcch_slot s tti"
    and "m_mch_configured s"
  shows
    "uint (frame_number tti) = uint tti div 10 \<and>
     uint (subframe_index tti) = uint tti mod 10 \<and>
     (\<forall>i. uint (period_frame s tti i)
            = uint (frame_number tti) mod uint (mch_sched_period (pmch_info_list (m_mcch s) ! i))) \<and>
     (\<forall>i. uint (alloc_index s tti i) =
            (if mbms_dedicated (m_cell s)
             then (uint (period_frame s tti i) * 10 + uint (subframe_index tti)
                     - uint (period_frame s tti i) div 4 - 1) mod 2 ^ 32
             else (uint (period_frame s tti i) * 6
                     + (if uint (subframe_index tti) < 6 then uint (subframe_index tti) - 1
                        else uint (subframe_index tti) - 3)) mod 2 ^ 32)) \<and>
     (\<forall>i. \<not> (period_frame s tti i = 0 \<and> subframe_index tti = 0) \<longrightarrow>
          uint (alloc_index s tti i) =
            (if mbms_dedicated (m_cell s)
             then uint (period_frame s tti i) * 10 + uint (subframe_index tti)
                    - uint (period_frame s tti i) div 4 - 1
             else uint (period_frame s tti i) * 6
                    + (if uint (subframe_index tti) < 6 then uint (subframe_index tti) - 1
                       else uint (subframe_index tti) - 3))) \<and>
     (\<forall>i. period_frame s tti i = 0 \<and> subframe_index tti = 0 \<longrightarrow>
          uint (alloc_index s tti i) = 2 ^ 32 - 1 \<and> \<not> in_window s tti i) \<and>
     (\<forall>k < nof_pmch_info (m_mcch s).
        in_window s tti k \<and> (\<forall>j < k. \<not> in_window s tti j) \<longrightarrow>
        (\<exists>cfg. mbsfn_config_for_tti s uninit tti area = Inr (cfg, k, s) \<and>
               enable cfg \<and> \<not> is_mcch cfg)) \<and>
     ((\<forall>j < nof_pmch_info (m_mcch s). \<not> in_window s tti j) \<longrightarrow>
        (\<exists>cfg. mbsfn_config_for_tti s uninit tti area = Inr (cfg, area, s) \<and>
               \<not> enable cfg \<and> \<not> is_mcch cfg))"
proof -
  have fn: "uint (frame_number tti) = uint tti div 10"
    by (simp add: frame_number_def uint_div_distrib)
  have pf: "\<forall>i. uint (period_frame s tti i)
            = uint (frame_number tti) mod uint (mch_sched_period (pmch_info_list (m_mcch s) ! i))"
    by (simp add: uint_period_frame fn)
  have idx: "\<forall>i. uint (alloc_index s tti i) =
            (if mbms_dedicated (m_cell s)
             then (uint (period_frame s tti i) * 10 + uint (subframe_index tti)
                     - uint (period_frame s tti i) div 4 - 1) mod 2 ^ 32
             else (uint (period_frame s tti i) * 6
                     + (if uint (subframe_index tti) < 6 then uint (subframe_index tti) - 1
                        else uint (subframe_index tti) - 3)) mod 2 ^ 32)"
    unfolding alloc_index_def by (simp only: uint_sf_idx) simp
  have exact: "\<forall>i. \<not> (period_frame s tti i = 0 \<and> subframe_index tti = 0) \<longrightarrow>
          uint (alloc_index s tti i) =
            (if mbms_dedicated (m_cell s)
             then uint (period_frame s tti i) * 10 + uint (subframe_index tti)
                    - uint (period_frame s tti i) div 4 - 1
             else uint (period_frame s tti i) * 6
                    + (if uint (subframe_index tti) < 6 then uint (subframe_index tti) - 1
                       else uint (subframe_index tti) - 3))"
    using alloc_index_exact by blast
  have wrap: "\<forall>i. period_frame s tti i = 0 \<and> subframe_index tti = 0 \<longrightarrow>
          uint (alloc_index s tti i) = 2 ^ 32 - 1 \<and> \<not> in_window s tti i"
    by (simp add: alloc_index_underflow underflow_not_in_window uint_minus_one_u32)
  have hit: "\<forall>k < nof_pmch_info (m_mcch s).
        in_window s tti k \<and> (\<forall>j < k. \<not> in_window s tti j) \<longrightarrow>
        (\<exists>cfg. mbsfn_config_for_tti s uninit tti area = Inr (cfg, k, s) \<and>
               enable cfg \<and> \<not> is_mcch cfg)"
  proof (intro allI impI)
    fix k assume k: "k < nof_pmch_info (m_mcch s)"
      and w: "in_window s tti k \<and> (\<forall>j < k. \<not> in_window s tti j)"
    then have "mbsfn_config_for_tti s uninit tti area = Inr (channel_cfg s uninit tti k, k, s)"
      using assms by (intro config_first_match) auto
    moreover have "enable (channel_cfg s uninit tti k) \<and> \<not> is_mcch (channel_cfg s uninit tti k)"
      by (simp add: channel_cfg_def base_cfg_def)
    ultimately show "\<exists>cfg. mbsfn_config_for_tti s uninit tti area = Inr (cfg, k, s) \<and>
               enable cfg \<and> \<not> is_mcch cfg" by blast
  qed
  have miss: "(\<forall>j < nof_pmch_info (m_mcch s). \<not> in_window s tti j) \<longrightarrow>
        (\<exists>cfg. mbsfn_config_for_tti s uninit tti area = Inr (cfg, area, s) \<and>
               \<not> enable cfg \<and> \<not> is_mcch cfg)"
  proof
    assume "\<forall>j < nof_pmch_info (m_mcch s). \<not> in_window s tti j"
    then have "mbsfn_config_for_tti s uninit tti area = Inr (base_cfg s uninit, area, s)"
      using assms by (intro config_no_match) auto
    moreover have "\<not> enable (base_cfg s uninit) \<and> \<not> is_mcch (base_cfg s uninit)"
      by (simp add: base_cfg_def)
    ultimately show "\<exists>cfg. mbsfn_config_for_tti s uninit tti area = Inr (cfg, area, s) \<and>
               \<not> enable cfg \<and> \<not> is_mcch cfg" by blast
  qed
  from fn uint_subframe_index pf idx exact wrap hit miss show ?thesis by blast
qed

text \<open>
  The scenario of the specification: a multicast-dedicated cell, one channel with scheduling
  period 32 frames and \<^verbatim>\<open>sf_alloc_end\<close> 9. At TTI 11 the allocation index is
  1 * 10 + 1 - 0 - 1 = 10, above 9, so the TTI is not assigned to channel 0: the decision is
  disabled and the caller's \<^verbatim>\<open>area\<close> (5 here) is untouched. With one channel of period 8 and
  \<^verbatim>\<open>sf_alloc_end\<close> 5, TTI 80 has periodFrame 0 and subframeIndex 0: the index is 4294967295
  and the TTI is outside the window.
\<close>

theorem channel_check_witness:
  "m_mcch_configured (scenario_phy True True [channel 32 9 5]) \<and>
   periods_nonzero (scenario_phy True True [channel 32 9 5]) \<and>
   \<not> mcch_slot (scenario_phy True True [channel 32 9 5]) 11 \<and>
   m_mch_configured (scenario_phy True True [channel 32 9 5]) \<and>
   uint (alloc_index (scenario_phy True True [channel 32 9 5]) 11 0) = 10 \<and>
   \<not> in_window (scenario_phy True True [channel 32 9 5]) 11 0 \<and>
   (\<exists>cfg. mbsfn_config_for_tti (scenario_phy True True [channel 32 9 5]) (stack_contents 0xAA) 11 5
            = Inr (cfg, 5, scenario_phy True True [channel 32 9 5]) \<and>
          \<not> enable cfg \<and> \<not> is_mcch cfg) \<and>
   m_mcch_configured (scenario_phy True True [channel 8 5 5]) \<and>
   periods_nonzero (scenario_phy True True [channel 8 5 5]) \<and>
   \<not> mcch_slot (scenario_phy True True [channel 8 5 5]) 80 \<and>
   m_mch_configured (scenario_phy True True [channel 8 5 5]) \<and>
   period_frame (scenario_phy True True [channel 8 5 5]) 80 0 = 0 \<and>
   subframe_index 80 = 0 \<and>
   uint (alloc_index (scenario_phy True True [channel 8 5 5]) 80 0) = 4294967295 \<and>
   \<not> in_window (scenario_phy True True [channel 8 5 5]) 80 0"
proof -
  let ?S = "scenario_phy True True [channel 32 9 5]"
  let ?T = "scenario_phy True True [channel 8 5 5]"
  have g: "m_mcch_configured ?T" "periods_nonzero ?T" "\<not> mcch_slot ?T 80" "m_mch_configured ?T"
    by (simp_all add: scenario_eval)
  have z: "period_frame ?T 80 0 = 0" "subframe_index 80 = 0"
    by (simp_all add: scenario_eval)
  from channel_check [OF g, of "stack_contents 0xAA" 5] z
  have wrap: "uint (alloc_index ?T 80 0) = 4294967295 \<and> \<not> in_window ?T 80 0"
    by simp
  have h: "m_mcch_configured ?S" "periods_nonzero ?S" "\<not> mcch_slot ?S 11" "m_mch_configured ?S"
    by (simp_all add: scenario_eval)
  have idx: "uint (alloc_index ?S 11 0) = 10" and miss: "\<not> in_window ?S 11 0"
    by (simp_all add: scenario_eval)
  have all: "\<forall>j < nof_pmch_info (m_mcch ?S). \<not> in_window ?S 11 j"
    using miss by (simp add: scenario_flags)
  from channel_check [OF h, of "stack_contents 0xAA" 5] all
  have "\<exists>cfg. mbsfn_config_for_tti ?S (stack_contents 0xAA) 11 5 = Inr (cfg, 5, ?S) \<and> \<not> enable cfg \<and> \<not> is_mcch cfg"
    by blast
  with h idx miss g z wrap show ?thesis by blast
qed

text \<open>
  Claim C3. With MCCH configured (and a nonzero repetition period), the MCCH branch is taken
  exactly when (tti div 10) mod mcchRepeatPeriod = mcchOffset and the MCCH table holds 1 at
  subframe tti mod 10. Then, if MCCH decoding is enabled, the decision has enable = true,
  is_mcch = true, the signalling coding scheme and SIB13's MBSFN area id; if MCCH decoding
  is disabled, the decision is disabled and the multicast-channel check is not made,
  whatever the channels are. \<^verbatim>\<open>area\<close> is left as the caller passed it.
\<close>

theorem mcch_check:
  assumes "m_mcch_configured s"
    and "mcch_repeat_period (mcch_cfg (mbsfn_area_info_list (m_sib13 s) 0)) \<noteq> 0"
  shows
    "(mcch_slot s tti \<longleftrightarrow>
        (uint tti div 10) mod uint (mcch_repeat_period (mcch_cfg (mbsfn_area_info_list (m_sib13 s) 0)))
           = uint (mcch_offset (mcch_cfg (mbsfn_area_info_list (m_sib13 s) 0))) \<and>
        m_mcch_table s (unat tti mod 10) = 1) \<and>
     (mcch_slot s tti \<and> m_decode_mcch s \<longrightarrow>
        (\<exists>cfg. mbsfn_config_for_tti s uninit tti area = Inr (cfg, area, s) \<and>
               enable cfg \<and> is_mcch cfg \<and>
               mbsfn_mcs cfg = (sig_mcs (mcch_cfg (mbsfn_area_info_list (m_sib13 s) 0))) \<and>
               cfg_mbsfn_area_id cfg
                 = (mbsfn_area_id (mbsfn_area_info_list (m_sib13 s) 0)))) \<and>
     (mcch_slot s tti \<and> \<not> m_decode_mcch s \<longrightarrow>
        (\<exists>cfg. mbsfn_config_for_tti s uninit tti area = Inr (cfg, area, s) \<and>
               \<not> enable cfg \<and> \<not> is_mcch cfg))"
  using assms
  by (simp add: mcch_slot_iff [symmetric] mbsfn_config_for_tti_unfold base_cfg_def)

text \<open>
  The scenario of the specification: repetition period 32, offset 0, the table true at
  subframe 0, decoding enabled: TTI 0 gives enable = true and is_mcch = true. With decoding
  disabled, TTI 320 is an MCCH slot that also lies in the window of channel 0 (allocation
  index 311, end 400), and the decision is disabled all the same.
\<close>

theorem mcch_check_witness:
  "m_mcch_configured (scenario_phy True True [channel 64 400 5]) \<and>
   mcch_slot (scenario_phy True True [channel 64 400 5]) 0 \<and>
   (\<exists>cfg. mbsfn_config_for_tti (scenario_phy True True [channel 64 400 5]) (stack_contents 0xAA) 0 5
             = Inr (cfg, 5, scenario_phy True True [channel 64 400 5]) \<and>
          enable cfg \<and> is_mcch cfg \<and> mbsfn_mcs cfg = 2 \<and> cfg_mbsfn_area_id cfg = 7) \<and>
   mcch_slot (scenario_phy True False [channel 64 400 5]) 320 \<and>
   in_window (scenario_phy True False [channel 64 400 5]) 320 0 \<and>
   (\<exists>cfg. mbsfn_config_for_tti (scenario_phy True False [channel 64 400 5]) (stack_contents 0xAA) 320 5
             = Inr (cfg, 5, scenario_phy True False [channel 64 400 5]) \<and>
          \<not> enable cfg \<and> \<not> is_mcch cfg)"
proof -
  let ?S = "scenario_phy True True [channel 64 400 5]"
  let ?T = "scenario_phy True False [channel 64 400 5]"
  have s: "m_mcch_configured ?S"
    "mcch_repeat_period (mcch_cfg (mbsfn_area_info_list (m_sib13 ?S) 0)) \<noteq> 0"
    "mcch_slot ?S 0" "m_decode_mcch ?S"
    by (simp_all add: scenario_eval)
  have t: "m_mcch_configured ?T"
    "mcch_repeat_period (mcch_cfg (mbsfn_area_info_list (m_sib13 ?T) 0)) \<noteq> 0"
    "mcch_slot ?T 320" "\<not> m_decode_mcch ?T" "in_window ?T 320 0"
    by (simp_all add: scenario_eval)
  have v: "sig_mcs (mcch_cfg (mbsfn_area_info_list (m_sib13 ?S) 0)) = 2"
    "mbsfn_area_id (mbsfn_area_info_list (m_sib13 ?S) 0) = 7"
    by (simp_all add: scenario_eval)
  from mcch_check [OF s(1,2), of 0 "stack_contents 0xAA" 5] s(3,4) v
  have a: "\<exists>cfg. mbsfn_config_for_tti ?S (stack_contents 0xAA) 0 5 = Inr (cfg, 5, ?S) \<and>
          enable cfg \<and> is_mcch cfg \<and> mbsfn_mcs cfg = 2 \<and> cfg_mbsfn_area_id cfg = 7"
    by simp
  from mcch_check [OF t(1,2), of 320 "stack_contents 0xAA" 5] t(3,4)
  have b: "\<exists>cfg. mbsfn_config_for_tti ?T (stack_contents 0xAA) 320 5 = Inr (cfg, 5, ?T) \<and>
          \<not> enable cfg \<and> \<not> is_mcch cfg"
    by simp
  from s t a b show ?thesis by blast
qed

text \<open>
  Claim C4. When \<^verbatim>\<open>mbsfn_config_for_tti\<close> assigns the TTI to multicast channel \<open>i\<close> (an enabled
  decision that is not MCCH, with \<^verbatim>\<open>area\<close> = \<open>i\<close>), \<open>i\<close> is a configured channel whose window
  holds the TTI, and the coding scheme returned is the signalling coding scheme if
  (i = 0 and periodFrame = 0 and subframeIndex = 1) or (i > 0 and the allocation index is
  sf_alloc_end(i - 1) + 1), and channel \<open>i\<close>'s own data coding scheme otherwise.
\<close>

theorem channel_coding_scheme:
  assumes "mbsfn_config_for_tti s uninit tti area = Inr (cfg, i, s')"
    and "enable cfg" and "\<not> is_mcch cfg"
  shows
    "i < nof_pmch_info (m_mcch s) \<and> in_window s tti i \<and>
     mbsfn_mcs cfg =
       (if (i = 0 \<and> period_frame s tti i = 0 \<and> subframe_index tti = 1) \<or>
                (0 < i \<and> alloc_index s tti i
                           = ucast (sf_alloc_end (pmch_info_list (m_mcch s) ! (i - 1))) + 1)
             then sig_mcs (mcch_cfg (mbsfn_area_info_list (m_sib13 s) 0))
             else data_mcs (pmch_info_list (m_mcch s) ! i))"
proof -
  from config_assigned [OF assms]
  have i: "i < nof_pmch_info (m_mcch s)" and w: "in_window s tti i"
    and c: "cfg = channel_cfg s uninit tti i"
    by simp_all
  have "signalling_subframe s tti i \<longleftrightarrow>
          (i = 0 \<and> period_frame s tti i = 0 \<and> subframe_index tti = 1) \<or>
          (0 < i \<and> alloc_index s tti i
                     = ucast (sf_alloc_end (pmch_info_list (m_mcch s) ! (i - 1))) + 1)"
    by (auto simp: signalling_subframe_def)
  then have "mbsfn_mcs cfg =
       (if (i = 0 \<and> period_frame s tti i = 0 \<and> subframe_index tti = 1) \<or>
                (0 < i \<and> alloc_index s tti i
                           = ucast (sf_alloc_end (pmch_info_list (m_mcch s) ! (i - 1))) + 1)
             then sig_mcs (mcch_cfg (mbsfn_area_info_list (m_sib13 s) 0))
             else data_mcs (pmch_info_list (m_mcch s) ! i))"
    by (simp add: c channel_cfg_def base_cfg_def)
  with i w show ?thesis by blast
qed

text \<open>
  Two channels of period 8 with window ends 5 and 100 and data coding schemes 5 and 6: TTI 7
  has allocation index 6 = 5 + 1, the subframe after the window of channel 0, so it belongs
  to channel 1 with the signalling coding scheme 2; TTI 8 belongs to channel 1 with its data
  coding scheme 6.
\<close>

theorem channel_coding_scheme_witness:
  "mbsfn_config_for_tti (scenario_phy True True [channel 8 5 5, channel 8 100 6]) (stack_contents 0xAA) 7 0
     = Inr (\<lparr>cfg_mbsfn_area_id = 7, non_mbsfn_region_length = 1, mbsfn_mcs = 2,
             enable = True, is_mcch = False\<rparr>, 1,
            scenario_phy True True [channel 8 5 5, channel 8 100 6]) \<and>
   alloc_index (scenario_phy True True [channel 8 5 5, channel 8 100 6]) 7 1 = 5 + 1 \<and>
   mbsfn_config_for_tti (scenario_phy True True [channel 8 5 5, channel 8 100 6]) (stack_contents 0xAA) 8 0
     = Inr (\<lparr>cfg_mbsfn_area_id = 7, non_mbsfn_region_length = 1, mbsfn_mcs = 6,
             enable = True, is_mcch = False\<rparr>, 1,
            scenario_phy True True [channel 8 5 5, channel 8 100 6]) \<and>
   in_window (scenario_phy True True [channel 8 5 5, channel 8 100 6]) 7 1 \<and>
   in_window (scenario_phy True True [channel 8 5 5, channel 8 100 6]) 8 1"
proof -
  let ?S = "scenario_phy True True [channel 8 5 5, channel 8 100 6]"
  let ?sig = "\<lparr>cfg_mbsfn_area_id = 7, non_mbsfn_region_length = 1, mbsfn_mcs = 2,
             enable = True, is_mcch = False\<rparr>"
  let ?data = "\<lparr>cfg_mbsfn_area_id = 7, non_mbsfn_region_length = 1, mbsfn_mcs = 6,
             enable = True, is_mcch = False\<rparr>"
  have "mbsfn_config_for_tti ?S (stack_contents 0xAA) 7 0 = Inr (channel_cfg ?S (stack_contents 0xAA) 7 1, 1, ?S)"
    by (rule config_first_match) (simp_all add: scenario_eval)
  moreover have "channel_cfg ?S (stack_contents 0xAA) 7 1 = ?sig"
    by (simp add: channel_cfg_def base_cfg_def scenario_eval)
  ultimately have r7: "mbsfn_config_for_tti ?S (stack_contents 0xAA) 7 0 = Inr (?sig, 1, ?S)" by simp
  have "mbsfn_config_for_tti ?S (stack_contents 0xAA) 8 0 = Inr (channel_cfg ?S (stack_contents 0xAA) 8 1, 1, ?S)"
    by (rule config_first_match) (simp_all add: scenario_eval)
  moreover have "channel_cfg ?S (stack_contents 0xAA) 8 1 = ?data"
    by (simp add: channel_cfg_def base_cfg_def scenario_eval)
  ultimately have r8: "mbsfn_config_for_tti ?S (stack_contents 0xAA) 8 0 = Inr (?data, 1, ?S)" by simp
  have idx: "alloc_index ?S 7 1 = 5 + 1" by (simp add: scenario_eval)
  from channel_coding_scheme [OF r7] channel_coding_scheme [OF r8] r7 r8 idx
  show ?thesis by simp
qed

text \<open>
  Claim C5. \<^verbatim>\<open>mbsfn_config_for_tti\<close> returns a decision for every 32-bit TTI. If MCCH has
  never been configured, the decision has enable = false and is_mcch = false (and no other
  field written). If no period is zero (the right operands of the function's \<^verbatim>\<open>%\<close>, which
  \<^verbatim>\<open>enum_to_number\<close> yields), every call returns a decision and leaves the object as it was.
  And when neither the MCCH slot nor any configured channel window matches, the decision
  returned is disabled.
\<close>

theorem mbsfn_config_for_tti_total:
  "(\<not> m_mcch_configured s \<longrightarrow>
      mbsfn_config_for_tti s uninit tti area
        = Inr (uninit\<lparr>enable := False, is_mcch := False\<rparr>, area, s)) \<and>
   (periods_nonzero s \<longrightarrow>
      (\<exists>cfg area'. mbsfn_config_for_tti s uninit tti area = Inr (cfg, area', s))) \<and>
   (m_mcch_configured s \<and> periods_nonzero s \<and> \<not> mcch_slot s tti \<and>
    (m_mch_configured s \<longrightarrow> (\<forall>j < nof_pmch_info (m_mcch s). \<not> in_window s tti j)) \<longrightarrow>
      (\<exists>cfg. mbsfn_config_for_tti s uninit tti area = Inr (cfg, area, s) \<and>
             \<not> enable cfg \<and> \<not> is_mcch cfg))"
proof -
  have a: "\<not> m_mcch_configured s \<longrightarrow>
      mbsfn_config_for_tti s uninit tti area
        = Inr (uninit\<lparr>enable := False, is_mcch := False\<rparr>, area, s)"
    by (simp add: mbsfn_config_for_tti_unfold)
  have b: "periods_nonzero s \<longrightarrow>
      (\<exists>cfg area'. mbsfn_config_for_tti s uninit tti area = Inr (cfg, area', s))"
    using config_total by blast
  have c: "m_mcch_configured s \<and> periods_nonzero s \<and> \<not> mcch_slot s tti \<and>
    (m_mch_configured s \<longrightarrow> (\<forall>j < nof_pmch_info (m_mcch s). \<not> in_window s tti j)) \<longrightarrow>
      (\<exists>cfg. mbsfn_config_for_tti s uninit tti area = Inr (cfg, area, s) \<and>
             \<not> enable cfg \<and> \<not> is_mcch cfg)"
  proof
    assume h: "m_mcch_configured s \<and> periods_nonzero s \<and> \<not> mcch_slot s tti \<and>
      (m_mch_configured s \<longrightarrow> (\<forall>j < nof_pmch_info (m_mcch s). \<not> in_window s tti j))"
    then have "mbsfn_config_for_tti s uninit tti area = Inr (base_cfg s uninit, area, s)"
      by (intro config_no_match) auto
    moreover have "\<not> enable (base_cfg s uninit) \<and> \<not> is_mcch (base_cfg s uninit)"
      by (simp add: base_cfg_def)
    ultimately show "\<exists>cfg. mbsfn_config_for_tti s uninit tti area = Inr (cfg, area, s) \<and>
             \<not> enable cfg \<and> \<not> is_mcch cfg" by blast
  qed
  from a b c show ?thesis by blast
qed

text \<open>
  After \<^verbatim>\<open>reset\<close> the largest TTI gets the disabled decision; in a mixed cell with one channel
  (period 8, end 5), TTI 9 has allocation index 6, no window matches, and the decision is
  disabled.
\<close>

theorem mbsfn_config_for_tti_total_witness:
  "\<not> m_mcch_configured (reset (scenario_phy False True [channel 8 5 5])) \<and>
   mbsfn_config_for_tti (reset (scenario_phy False True [channel 8 5 5])) (stack_contents 0xAA) 4294967295 5
     = Inr ((stack_contents 0xAA)\<lparr>enable := False, is_mcch := False\<rparr>, 5, reset (scenario_phy False True [channel 8 5 5])) \<and>
   m_mcch_configured (scenario_phy False True [channel 8 5 5]) \<and>
   periods_nonzero (scenario_phy False True [channel 8 5 5]) \<and>
   \<not> mcch_slot (scenario_phy False True [channel 8 5 5]) 9 \<and>
   \<not> in_window (scenario_phy False True [channel 8 5 5]) 9 0 \<and>
   (\<exists>cfg. mbsfn_config_for_tti (scenario_phy False True [channel 8 5 5]) (stack_contents 0xAA) 9 5
            = Inr (cfg, 5, scenario_phy False True [channel 8 5 5]) \<and>
          \<not> enable cfg \<and> \<not> is_mcch cfg)"
proof -
  let ?R = "reset (scenario_phy False True [channel 8 5 5])"
  let ?S = "scenario_phy False True [channel 8 5 5]"
  have r: "\<not> m_mcch_configured ?R" by (simp add: reset_def)
  have h: "m_mcch_configured ?S" "periods_nonzero ?S" "\<not> mcch_slot ?S 9" "\<not> in_window ?S 9 0"
    by (simp_all add: scenario_eval)
  have all: "m_mch_configured ?S \<longrightarrow> (\<forall>j < nof_pmch_info (m_mcch ?S). \<not> in_window ?S 9 j)"
    using h(4) by (simp add: scenario_flags)
  from mbsfn_config_for_tti_total [of ?R "stack_contents 0xAA" 4294967295 5] r
  have a: "mbsfn_config_for_tti ?R (stack_contents 0xAA) 4294967295 5
     = Inr ((stack_contents 0xAA)\<lparr>enable := False, is_mcch := False\<rparr>, 5, ?R)"
    by blast
  from mbsfn_config_for_tti_total [of ?S "stack_contents 0xAA" 9 5] h all
  have b: "\<exists>cfg. mbsfn_config_for_tti ?S (stack_contents 0xAA) 9 5 = Inr (cfg, 5, ?S) \<and> \<not> enable cfg \<and> \<not> is_mcch cfg"
    by blast
  from r h a b show ?thesis by blast
qed

text \<open>
  Claim C10, as stated, fails when the channels have different scheduling periods. Channel
  0 has period 8 and channel 1 period 16 (window end 100): TTI 80 has subframe index 0 and
  lies in frame 0 of channel 0's scheduling period, and it is assigned to channel 1
  (periodFrame 8, allocation index 77) with an enabled decision.
\<close>

theorem frame0_subframe0_counterexample:
  "subframe_index 80 = 0 \<and>
   period_frame (scenario_phy True True [channel 8 5 5, channel 16 100 6]) 80 0 = 0 \<and>
   mbsfn_config_for_tti (scenario_phy True True [channel 8 5 5, channel 16 100 6]) (stack_contents 0xAA) 80 0
     = Inr (\<lparr>cfg_mbsfn_area_id = 7, non_mbsfn_region_length = 1, mbsfn_mcs = 6,
             enable = True, is_mcch = False\<rparr>, 1,
            scenario_phy True True [channel 8 5 5, channel 16 100 6])"
proof -
  let ?S = "scenario_phy True True [channel 8 5 5, channel 16 100 6]"
  have z: "subframe_index 80 = 0" "period_frame ?S 80 0 = 0"
    by (simp_all add: scenario_eval)
  have first: "\<forall>j < 1. \<not> in_window ?S 80 j"
    using underflow_not_in_window [OF z] by simp
  have "mbsfn_config_for_tti ?S (stack_contents 0xAA) 80 0 = Inr (channel_cfg ?S (stack_contents 0xAA) 80 1, 1, ?S)"
    using first by (intro config_first_match) (simp_all add: scenario_eval)
  moreover have "channel_cfg ?S (stack_contents 0xAA) 80 1 =
      \<lparr>cfg_mbsfn_area_id = 7, non_mbsfn_region_length = 1, mbsfn_mcs = 6,
             enable = True, is_mcch = False\<rparr>"
    by (simp add: channel_cfg_def base_cfg_def scenario_eval)
  ultimately show ?thesis using z by simp
qed

text \<open>
  Claim C10, amended. For a TTI with subframe index 0 and a channel \<open>i\<close> whose periodFrame
  is 0 at that TTI, the allocation index underflows to 2^32 - 1 in both cell modes
  (0 * 10 + 0 - 0 - 1 and 0 * 6 + (0 - 1)), the comparison with \<^verbatim>\<open>sf_alloc_end(i)\<close> is false
  for every value of that 16-bit field, and the TTI is never assigned to channel \<open>i\<close>. The
  function still returns a decision (no period being zero); when the MCCH slot does not
  match and every configured channel has periodFrame 0 at that TTI, the decision is
  disabled.
\<close>

theorem frame0_subframe0_underflow:
  assumes "subframe_index tti = 0" and "period_frame s tti i = 0"
  shows
    "alloc_index s tti i = - 1 \<and> uint (alloc_index s tti i) = 2 ^ 32 - 1 \<and>
     \<not> in_window s tti i \<and>
     (\<forall>cfg s'. mbsfn_config_for_tti s uninit tti area = Inr (cfg, i, s') \<longrightarrow>
                \<not> (enable cfg \<and> \<not> is_mcch cfg)) \<and>
     (periods_nonzero s \<longrightarrow>
        (\<exists>cfg area'. mbsfn_config_for_tti s uninit tti area = Inr (cfg, area', s))) \<and>
     (m_mcch_configured s \<and> periods_nonzero s \<and> \<not> mcch_slot s tti \<and>
      (\<forall>j < nof_pmch_info (m_mcch s). period_frame s tti j = 0) \<longrightarrow>
        (\<exists>cfg. mbsfn_config_for_tti s uninit tti area = Inr (cfg, area, s) \<and> \<not> enable cfg))"
proof -
  have under: "\<And>j. period_frame s tti j = 0 \<Longrightarrow> alloc_index s tti j = - 1"
    using assms(1) by (rule alloc_index_underflow)
  have out: "\<And>j. period_frame s tti j = 0 \<Longrightarrow> \<not> in_window s tti j"
    using assms(1) by (rule underflow_not_in_window)
  have a: "alloc_index s tti i = - 1" using assms(2) by (rule under)
  then have b: "uint (alloc_index s tti i) = 2 ^ 32 - 1" by (simp add: uint_minus_one_u32)
  have c: "\<not> in_window s tti i" using assms(2) by (rule out)
  have d: "\<forall>cfg s'. mbsfn_config_for_tti s uninit tti area = Inr (cfg, i, s') \<longrightarrow>
                \<not> (enable cfg \<and> \<not> is_mcch cfg)"
    using c config_assigned by blast
  have e: "periods_nonzero s \<longrightarrow>
        (\<exists>cfg area'. mbsfn_config_for_tti s uninit tti area = Inr (cfg, area', s))"
    using config_total by blast
  have f: "m_mcch_configured s \<and> periods_nonzero s \<and> \<not> mcch_slot s tti \<and>
      (\<forall>j < nof_pmch_info (m_mcch s). period_frame s tti j = 0) \<longrightarrow>
        (\<exists>cfg. mbsfn_config_for_tti s uninit tti area = Inr (cfg, area, s) \<and> \<not> enable cfg)"
  proof
    assume h: "m_mcch_configured s \<and> periods_nonzero s \<and> \<not> mcch_slot s tti \<and>
      (\<forall>j < nof_pmch_info (m_mcch s). period_frame s tti j = 0)"
    then have "\<forall>j < nof_pmch_info (m_mcch s). \<not> in_window s tti j"
      using out by blast
    with h have "mbsfn_config_for_tti s uninit tti area = Inr (base_cfg s uninit, area, s)"
      by (intro config_no_match) auto
    moreover have "\<not> enable (base_cfg s uninit)" by (simp add: base_cfg_def)
    ultimately show "\<exists>cfg. mbsfn_config_for_tti s uninit tti area = Inr (cfg, area, s) \<and> \<not> enable cfg"
      by blast
  qed
  from a b c d e f show ?thesis by blast
qed

text \<open>
  One channel of period 8: TTI 80 is subframe 0 of frame 8, periodFrame 0; the allocation
  index is 4294967295 and the decision is disabled.
\<close>

theorem frame0_subframe0_underflow_witness:
  "subframe_index 80 = 0 \<and>
   period_frame (scenario_phy True True [channel 8 5 5]) 80 0 = 0 \<and>
   alloc_index (scenario_phy True True [channel 8 5 5]) 80 0 = 4294967295 \<and>
   \<not> in_window (scenario_phy True True [channel 8 5 5]) 80 0 \<and>
   \<not> mcch_slot (scenario_phy True True [channel 8 5 5]) 80 \<and>
   (\<exists>cfg. mbsfn_config_for_tti (scenario_phy True True [channel 8 5 5]) (stack_contents 0xAA) 80 5
            = Inr (cfg, 5, scenario_phy True True [channel 8 5 5]) \<and> \<not> enable cfg)"
proof -
  let ?S = "scenario_phy True True [channel 8 5 5]"
  have h: "subframe_index 80 = 0" "period_frame ?S 80 0 = 0"
    by (simp_all add: scenario_eval)
  have g: "m_mcch_configured ?S" "periods_nonzero ?S" "\<not> mcch_slot ?S 80"
    by (simp_all add: scenario_eval)
  have all: "\<forall>j < nof_pmch_info (m_mcch ?S). period_frame ?S 80 j = 0"
    using h(2) by (simp add: scenario_flags)
  from frame0_subframe0_underflow [OF h, of "stack_contents 0xAA" 5] g all
  have "alloc_index ?S 80 0 = - 1" and "\<not> in_window ?S 80 0"
    and "\<exists>cfg. mbsfn_config_for_tti ?S (stack_contents 0xAA) 80 5 = Inr (cfg, 5, ?S) \<and> \<not> enable cfg"
    by blast+
  with h g show ?thesis by simp
qed

text \<open>
  Claim C9, as stated, fails for the fields that a call does not write. The decision is built
  in a local that is declared without an initialiser; a disabled decision past the
  configured test never has its coding scheme assigned, and the struct returned carries
  what the stack held. Same configuration, same TTI 11, same \<^verbatim>\<open>area\<close>: with the stack filled
  with 0xAA the call returns coding scheme 170, with the stack filled with 0x55 it returns
  85, and the two decisions differ.
\<close>

theorem tti_pure_counterexample:
  "mbsfn_config_for_tti (scenario_phy True True [channel 8 5 5]) (stack_contents 0xAA) 11 3
     = Inr (\<lparr>cfg_mbsfn_area_id = 7, non_mbsfn_region_length = 1, mbsfn_mcs = 0xAA,
             enable = False, is_mcch = False\<rparr>, 3, scenario_phy True True [channel 8 5 5]) \<and>
   mbsfn_config_for_tti (scenario_phy True True [channel 8 5 5]) (stack_contents 0x55) 11 3
     = Inr (\<lparr>cfg_mbsfn_area_id = 7, non_mbsfn_region_length = 1, mbsfn_mcs = 0x55,
             enable = False, is_mcch = False\<rparr>, 3, scenario_phy True True [channel 8 5 5]) \<and>
   mbsfn_config_for_tti (scenario_phy True True [channel 8 5 5]) (stack_contents 0xAA) 11 3
     \<noteq> mbsfn_config_for_tti (scenario_phy True True [channel 8 5 5]) (stack_contents 0x55) 11 3"
proof -
  let ?S = "scenario_phy True True [channel 8 5 5]"
  have a: "mbsfn_config_for_tti ?S (stack_contents 0xAA) 11 3
             = Inr (base_cfg ?S (stack_contents 0xAA), 3, ?S)"
    by (rule config_no_match) (simp_all add: scenario_eval)
  have b: "mbsfn_config_for_tti ?S (stack_contents 0x55) 11 3
             = Inr (base_cfg ?S (stack_contents 0x55), 3, ?S)"
    by (rule config_no_match) (simp_all add: scenario_eval)
  have ca: "base_cfg ?S (stack_contents 0xAA) =
      \<lparr>cfg_mbsfn_area_id = 7, non_mbsfn_region_length = 1, mbsfn_mcs = 0xAA,
       enable = False, is_mcch = False\<rparr>"
    by (simp add: base_cfg_def stack_contents_def scenario_eval)
  have cb: "base_cfg ?S (stack_contents 0x55) =
      \<lparr>cfg_mbsfn_area_id = 7, non_mbsfn_region_length = 1, mbsfn_mcs = 0x55,
       enable = False, is_mcch = False\<rparr>"
    by (simp add: base_cfg_def stack_contents_def scenario_eval)
  show ?thesis unfolding a b ca cb by simp
qed

text \<open>
  Claim C9, amended. \<^verbatim>\<open>mbsfn_config_for_tti\<close> does not change the object. After any sequence
  of calls with any TTIs and any stack contents (which leave the object \<open>s\<close> as it was, and
  the caller's \<^verbatim>\<open>area\<close> variable at some value \<open>a1\<close>), a call with \<open>tti\<close> fails exactly when a
  call with \<open>tti\<close> on \<open>s\<close> fails, whatever the initial \<^verbatim>\<open>area\<close> and the stack contents of the
  two calls, and otherwise the two decisions agree on enable, on is_mcch and on every field
  that the call writes: the area identifier and the region length once MCCH is configured,
  the coding scheme when the decision is enabled, and the channel index when the decision
  assigns a channel. A field that the call does not write is returned as the stack held it,
  and a decision that assigns no channel leaves \<^verbatim>\<open>area\<close> as the caller passed it.
\<close>

theorem tti_pure:
  assumes "calls s a0 ts = Inr (a1, s1)"
  shows "s1 = s \<and>
     (\<forall>e. mbsfn_config_for_tti s u tti a = Inl e \<longrightarrow>
          mbsfn_config_for_tti s1 u' tti a1 = Inl e) \<and>
     (\<forall>cfg r s2. mbsfn_config_for_tti s u tti a = Inr (cfg, r, s2) \<longrightarrow>
        s2 = s \<and>
        (\<exists>cfg' r'. mbsfn_config_for_tti s1 u' tti a1 = Inr (cfg', r', s) \<and>
              enable cfg' = enable cfg \<and> is_mcch cfg' = is_mcch cfg \<and>
              (m_mcch_configured s \<longrightarrow>
                 cfg_mbsfn_area_id cfg' = cfg_mbsfn_area_id cfg \<and>
                 non_mbsfn_region_length cfg' = non_mbsfn_region_length cfg) \<and>
              (enable cfg \<longrightarrow> mbsfn_mcs cfg' = mbsfn_mcs cfg) \<and>
              (enable cfg \<and> \<not> is_mcch cfg \<longrightarrow> r' = r) \<and>
              (\<not> m_mcch_configured s \<longrightarrow>
                 cfg_mbsfn_area_id cfg' = cfg_mbsfn_area_id u' \<and>
                 non_mbsfn_region_length cfg' = non_mbsfn_region_length u') \<and>
              (\<not> enable cfg \<longrightarrow> mbsfn_mcs cfg' = mbsfn_mcs u') \<and>
              (\<not> (enable cfg \<and> \<not> is_mcch cfg) \<longrightarrow> r' = a1)))"
proof -
  have st: "s1 = s" using assms by (rule calls_state)
  have err: "\<forall>e. mbsfn_config_for_tti s u tti a = Inl e \<longrightarrow>
                 mbsfn_config_for_tti s1 u' tti a1 = Inl e"
    using config_stack [of s u' tti a1 u a] st by simp
  have ok: "\<forall>cfg r s2. mbsfn_config_for_tti s u tti a = Inr (cfg, r, s2) \<longrightarrow>
        s2 = s \<and>
        (\<exists>cfg' r'. mbsfn_config_for_tti s1 u' tti a1 = Inr (cfg', r', s) \<and>
              enable cfg' = enable cfg \<and> is_mcch cfg' = is_mcch cfg \<and>
              (m_mcch_configured s \<longrightarrow>
                 cfg_mbsfn_area_id cfg' = cfg_mbsfn_area_id cfg \<and>
                 non_mbsfn_region_length cfg' = non_mbsfn_region_length cfg) \<and>
              (enable cfg \<longrightarrow> mbsfn_mcs cfg' = mbsfn_mcs cfg) \<and>
              (enable cfg \<and> \<not> is_mcch cfg \<longrightarrow> r' = r) \<and>
              (\<not> m_mcch_configured s \<longrightarrow>
                 cfg_mbsfn_area_id cfg' = cfg_mbsfn_area_id u' \<and>
                 non_mbsfn_region_length cfg' = non_mbsfn_region_length u') \<and>
              (\<not> enable cfg \<longrightarrow> mbsfn_mcs cfg' = mbsfn_mcs u') \<and>
              (\<not> (enable cfg \<and> \<not> is_mcch cfg) \<longrightarrow> r' = a1))"
  proof (intro allI impI)
    fix cfg r s2 assume r: "mbsfn_config_for_tti s u tti a = Inr (cfg, r, s2)"
    then have s2: "s2 = s" by (rule config_state)
    define cfg' where "cfg' =
      u'\<lparr>enable := enable cfg, is_mcch := is_mcch cfg,
         cfg_mbsfn_area_id :=
           if m_mcch_configured s then cfg_mbsfn_area_id cfg else cfg_mbsfn_area_id u',
         non_mbsfn_region_length :=
           if m_mcch_configured s then non_mbsfn_region_length cfg
           else non_mbsfn_region_length u',
         mbsfn_mcs := if enable cfg then mbsfn_mcs cfg else mbsfn_mcs u'\<rparr>"
    define r' where "r' = (if enable cfg \<and> \<not> is_mcch cfg then r else a1)"
    from r s2 st config_stack [of s u' tti a1 u a]
    have call: "mbsfn_config_for_tti s1 u' tti a1 = Inr (cfg', r', s)"
      by (simp add: cfg'_def r'_def)
    have fields: "enable cfg' = enable cfg \<and> is_mcch cfg' = is_mcch cfg \<and>
              (m_mcch_configured s \<longrightarrow>
                 cfg_mbsfn_area_id cfg' = cfg_mbsfn_area_id cfg \<and>
                 non_mbsfn_region_length cfg' = non_mbsfn_region_length cfg) \<and>
              (enable cfg \<longrightarrow> mbsfn_mcs cfg' = mbsfn_mcs cfg) \<and>
              (enable cfg \<and> \<not> is_mcch cfg \<longrightarrow> r' = r) \<and>
              (\<not> m_mcch_configured s \<longrightarrow>
                 cfg_mbsfn_area_id cfg' = cfg_mbsfn_area_id u' \<and>
                 non_mbsfn_region_length cfg' = non_mbsfn_region_length u') \<and>
              (\<not> enable cfg \<longrightarrow> mbsfn_mcs cfg' = mbsfn_mcs u') \<and>
              (\<not> (enable cfg \<and> \<not> is_mcch cfg) \<longrightarrow> r' = a1)"
      by (simp add: cfg'_def r'_def)
    from s2 call fields show "s2 = s \<and>
        (\<exists>cfg' r'. mbsfn_config_for_tti s1 u' tti a1 = Inr (cfg', r', s) \<and>
              enable cfg' = enable cfg \<and> is_mcch cfg' = is_mcch cfg \<and>
              (m_mcch_configured s \<longrightarrow>
                 cfg_mbsfn_area_id cfg' = cfg_mbsfn_area_id cfg \<and>
                 non_mbsfn_region_length cfg' = non_mbsfn_region_length cfg) \<and>
              (enable cfg \<longrightarrow> mbsfn_mcs cfg' = mbsfn_mcs cfg) \<and>
              (enable cfg \<and> \<not> is_mcch cfg \<longrightarrow> r' = r) \<and>
              (\<not> m_mcch_configured s \<longrightarrow>
                 cfg_mbsfn_area_id cfg' = cfg_mbsfn_area_id u' \<and>
                 non_mbsfn_region_length cfg' = non_mbsfn_region_length u') \<and>
              (\<not> enable cfg \<longrightarrow> mbsfn_mcs cfg' = mbsfn_mcs u') \<and>
              (\<not> (enable cfg \<and> \<not> is_mcch cfg) \<longrightarrow> r' = a1))"
      by blast
  qed
  from st err ok show ?thesis by blast
qed

text \<open>
  A call with TTI 2 (stack filled with 0x55) sets the caller's \<^verbatim>\<open>area\<close> to 0 and leaves the
  object alone. A first call with TTI 11 on a stack filled with 0xAA returns a disabled
  decision; the call with TTI 11 after the call with TTI 2, on a stack filled with 0x55,
  returns a disabled decision with the same area identifier 7 and region length 1, the
  coding scheme 85 that the stack held, and \<^verbatim>\<open>area\<close> as it was passed. TTI 2 itself is
  assigned to channel 0 with coding scheme 5 by both calls.
\<close>

theorem tti_pure_witness:
  "calls (scenario_phy True True [channel 8 5 5]) 3 [(2, stack_contents 0x55)]
     = Inr (0, scenario_phy True True [channel 8 5 5]) \<and>
   mbsfn_config_for_tti (scenario_phy True True [channel 8 5 5]) (stack_contents 0xAA) 11 3
     = Inr (\<lparr>cfg_mbsfn_area_id = 7, non_mbsfn_region_length = 1, mbsfn_mcs = 0xAA,
             enable = False, is_mcch = False\<rparr>, 3, scenario_phy True True [channel 8 5 5]) \<and>
   (\<exists>cfg' r'. mbsfn_config_for_tti (scenario_phy True True [channel 8 5 5])
                 (stack_contents 0x55) 11 0
                = Inr (cfg', r', scenario_phy True True [channel 8 5 5]) \<and>
              \<not> enable cfg' \<and> \<not> is_mcch cfg' \<and> cfg_mbsfn_area_id cfg' = 7 \<and>
              non_mbsfn_region_length cfg' = 1 \<and> mbsfn_mcs cfg' = 0x55 \<and> r' = 0) \<and>
   mbsfn_config_for_tti (scenario_phy True True [channel 8 5 5]) (stack_contents 0xAA) 2 3
     = Inr (\<lparr>cfg_mbsfn_area_id = 7, non_mbsfn_region_length = 1, mbsfn_mcs = 5,
             enable = True, is_mcch = False\<rparr>, 0, scenario_phy True True [channel 8 5 5]) \<and>
   (\<exists>cfg' r'. mbsfn_config_for_tti (scenario_phy True True [channel 8 5 5])
                 (stack_contents 0x55) 2 0
                = Inr (cfg', r', scenario_phy True True [channel 8 5 5]) \<and>
              enable cfg' \<and> \<not> is_mcch cfg' \<and> cfg_mbsfn_area_id cfg' = 7 \<and>
              non_mbsfn_region_length cfg' = 1 \<and> mbsfn_mcs cfg' = 5 \<and> r' = 0)"
proof -
  let ?S = "scenario_phy True True [channel 8 5 5]"
  let ?off = "\<lparr>cfg_mbsfn_area_id = 7, non_mbsfn_region_length = 1, mbsfn_mcs = 0xAA,
             enable = False, is_mcch = False\<rparr>"
  let ?on = "\<lparr>cfg_mbsfn_area_id = 7, non_mbsfn_region_length = 1, mbsfn_mcs = 5,
             enable = True, is_mcch = False\<rparr>"
  have "mbsfn_config_for_tti ?S (stack_contents 0x55) 2 3
          = Inr (channel_cfg ?S (stack_contents 0x55) 2 0, 0, ?S)"
    by (rule config_first_match) (simp_all add: scenario_eval)
  then have c: "calls ?S 3 [(2, stack_contents 0x55)] = Inr (0, ?S)" by simp
  have "mbsfn_config_for_tti ?S (stack_contents 0xAA) 11 3
          = Inr (base_cfg ?S (stack_contents 0xAA), 3, ?S)"
    by (rule config_no_match) (simp_all add: scenario_eval)
  moreover have "base_cfg ?S (stack_contents 0xAA) = ?off"
    by (simp add: base_cfg_def stack_contents_def scenario_eval)
  ultimately have d: "mbsfn_config_for_tti ?S (stack_contents 0xAA) 11 3 = Inr (?off, 3, ?S)"
    by simp
  have "mbsfn_config_for_tti ?S (stack_contents 0xAA) 2 3
          = Inr (channel_cfg ?S (stack_contents 0xAA) 2 0, 0, ?S)"
    by (rule config_first_match) (simp_all add: scenario_eval)
  moreover have "channel_cfg ?S (stack_contents 0xAA) 2 0 = ?on"
    by (simp add: channel_cfg_def base_cfg_def stack_contents_def scenario_eval)
  ultimately have e: "mbsfn_config_for_tti ?S (stack_contents 0xAA) 2 3 = Inr (?on, 0, ?S)"
    by simp
  have m: "m_mcch_configured ?S" by (simp add: scenario_flags)
  have v: "mbsfn_mcs (stack_contents 0x55) = 0x55" by (simp add: stack_contents_def)
  from tti_pure [OF c, of "stack_contents 0xAA" 11 3 "stack_contents 0x55"] d m v
  have off: "\<exists>cfg' r'. mbsfn_config_for_tti ?S (stack_contents 0x55) 11 0 = Inr (cfg', r', ?S) \<and>
              \<not> enable cfg' \<and> \<not> is_mcch cfg' \<and> cfg_mbsfn_area_id cfg' = 7 \<and>
              non_mbsfn_region_length cfg' = 1 \<and> mbsfn_mcs cfg' = 0x55 \<and> r' = 0"
    by simp
  from tti_pure [OF c, of "stack_contents 0xAA" 2 3 "stack_contents 0x55"] e m
  have on: "\<exists>cfg' r'. mbsfn_config_for_tti ?S (stack_contents 0x55) 2 0 = Inr (cfg', r', ?S) \<and>
              enable cfg' \<and> \<not> is_mcch cfg' \<and> cfg_mbsfn_area_id cfg' = 7 \<and>
              non_mbsfn_region_length cfg' = 1 \<and> mbsfn_mcs cfg' = 5 \<and> r' = 0"
    by simp
  from c d e off on show ?thesis by blast
qed

section \<open>The multicast channel registry\<close>

lemma push_or_nat:
  fixes a b :: nat
  assumes "b < 2 ^ n"
  shows "push_bit n a OR b = 2 ^ n * a + b"
proof -
  have b: "take_bit n b = b" using assms by (simp add: take_bit_nat_eq_self)
  have "push_bit n a AND take_bit n b = 0"
    by (auto simp: bit_eq_iff bit_simps)
  then have "push_bit n a AND b = 0" by (simp add: b)
  then have "push_bit n a + b = push_bit n a OR b"
    by (rule disjunctive_add_eq_or)
  then show ?thesis by (simp add: push_bit_eq_mult mult.commute)
qed

lemma unat_ucast_u8: "unat (ucast (x :: u8) :: u32) = unat x"
proof -
  have "uint (ucast x :: u32) = uint x" by (simp add: uint_up_ucast is_up)
  then have "nat (uint (ucast x :: u32)) = nat (uint x)" by (rule arg_cong)
  then show ?thesis by (simp only: nat_uint_eq)
qed

lemma unat_u8_bound: "unat (x :: u8) < 256"
  using unsigned_less [of x, where ?'a = nat] by simp

lemma unat_pack_nibbles:
  fixes x y :: u32
  assumes "unat x < 256" and "unat y < 16"
  shows "unat (push_bit 4 x OR y) = 16 * unat x + unat y"
proof -
  have "unat (x * 16) = unat x * 16"
    using assms(1) by (simp add: unat_word_ariths)
  then have "unat (push_bit 4 x) = push_bit 4 (unat x)"
    by (simp add: push_bit_eq_mult)
  then have "unat (push_bit 4 x OR y) = push_bit 4 (unat x) OR unat y"
    by (simp add: unsigned_or_eq)
  also have "\<dots> = 2 ^ 4 * unat x + unat y"
    using assms(2) by (intro push_or_nat) simp
  finally show ?thesis by simp
qed

lemma hex_small: "n < 16 \<Longrightarrow> hex n = [hex_digit n]"
  by (subst hex.simps) simp

lemma hex_large: "16 \<le> n \<Longrightarrow> hex n = hex (n div 16) @ [hex_digit (n mod 16)]"
  by (subst hex.simps) simp

lemma hex_digit_0: "hex_digit 0 = CHR ''0''"
  by (simp add: hex_digit_def)

lemma printf_byte:
  assumes "a < 16" and "b < 16"
  shows "printf_0x 2 (16 * a + b) = [hex_digit a, hex_digit b]"
proof (cases "a = 0")
  case True
  with assms show ?thesis
    by (simp add: printf_0x_def hex_small hex_digit_0)
next
  case False
  then have "16 \<le> 16 * a + b" by simp
  then have "hex (16 * a + b) = hex a @ [hex_digit b]"
    using assms by (simp add: hex_large)
  with assms show ?thesis
    by (simp add: printf_0x_def hex_small)
qed

lemma length_hex: "n < 16 ^ k \<Longrightarrow> 0 < k \<Longrightarrow> length (hex n) \<le> k"
proof (induction k arbitrary: n)
  case 0
  then show ?case by simp
next
  case (Suc k)
  show ?case
  proof (cases "n < 16")
    case True
    then show ?thesis by (simp add: hex_small)
  next
    case False
    then have k: "0 < k" using Suc.prems by (cases k) auto
    have "n div 16 < 16 ^ k" using Suc.prems by (simp add: less_mult_imp_div_less mult.commute)
    then have "length (hex (n div 16)) \<le> k" using k by (rule Suc.IH)
    with False show ?thesis by (simp add: hex_large)
  qed
qed

lemma length_printf_0x: "n < 16 ^ k \<Longrightarrow> 0 < k \<Longrightarrow> length (printf_0x k n) = k"
  using length_hex [of n k] by (simp add: printf_0x_def)

lemma unat_service_id:
  fixes s0 s1 s2 :: u8
  shows "unat ((ucast s2 :: u32) OR push_bit 8 (ucast s1) OR push_bit 16 (ucast s0))
           = 65536 * unat s0 + 256 * unat s1 + unat s2"
proof -
  have b0: "unat (ucast s0 :: u32) < 256" and b1: "unat (ucast s1 :: u32) < 256"
    by (simp_all add: unat_ucast_u8 unat_u8_bound)
  have p1: "unat (push_bit 8 (ucast s1 :: u32)) = push_bit 8 (unat s1)"
    using b1 by (simp add: push_bit_eq_mult unat_word_ariths unat_ucast_u8)
  have p0: "unat (push_bit 16 (ucast s0 :: u32)) = push_bit 16 (unat s0)"
    using b0 by (simp add: push_bit_eq_mult unat_word_ariths unat_ucast_u8)
  have "unat ((ucast s2 :: u32) OR push_bit 8 (ucast s1) OR push_bit 16 (ucast s0))
          = unat s2 OR push_bit 8 (unat s1) OR push_bit 16 (unat s0)"
    by (simp add: unsigned_or_eq p1 p0 unat_ucast_u8)
  also have "\<dots> = push_bit 8 (push_bit 8 (unat s0) OR unat s1) OR unat s2"
    by (simp add: push_bit_or ac_simps flip: push_bit_add)
  also have "\<dots> = 2 ^ 8 * (2 ^ 8 * unat s0 + unat s1) + unat s2"
    using unat_u8_bound [of s1] unat_u8_bound [of s2] by (simp add: push_or_nat)
  finally show ?thesis by simp
qed

lemma unat_packed_byte:
  fixes hi lo :: u8
  assumes "unat lo < 16"
  shows "unat (push_bit 4 (ucast hi :: u32) OR ucast lo) = 16 * unat hi + unat lo"
  using assms unat_pack_nibbles [of "ucast hi" "ucast lo"]
  by (simp add: unat_ucast_u8 unat_u8_bound)

lemma tmgi_sprintf_format:
  assumes "bcd_digits t"
  shows "tmgi_sprintf t =
           printf_0x 6 (65536 * unat (serviced_id t 0) + 256 * unat (serviced_id t 1)
                          + unat (serviced_id t 2))
           @ [hex_digit (unat (mcc (plmn_id_explicit_value t) 1)),
              hex_digit (unat (mcc (plmn_id_explicit_value t) 0)),
              hex_digit (if nof_mnc_digits (plmn_id_explicit_value t) = 2 then 15
                         else unat (mnc (plmn_id_explicit_value t) 2)),
              hex_digit (unat (mcc (plmn_id_explicit_value t) 2)),
              hex_digit (unat (mnc (plmn_id_explicit_value t) 1)),
              hex_digit (unat (mnc (plmn_id_explicit_value t) 0))]"
proof -
  let ?p = "plmn_id_explicit_value t"
  have d: "unat (mcc ?p 0) < 16" "unat (mcc ?p 1) < 16" "unat (mcc ?p 2) < 16"
    "unat (mnc ?p 0) < 16" "unat (mnc ?p 1) < 16"
    "nof_mnc_digits ?p \<noteq> 2 \<Longrightarrow> unat (mnc ?p 2) < 16"
    using assms by (auto simp: bcd_digits_def Let_def)
  have b1: "printf_0x 2 (unat (push_bit 4 (ucast (mcc ?p 1) :: u32) OR ucast (mcc ?p 0)))
              = [hex_digit (unat (mcc ?p 1)), hex_digit (unat (mcc ?p 0))]"
    using d by (simp add: unat_packed_byte printf_byte)
  have b3: "printf_0x 2 (unat (push_bit 4 (ucast (mnc ?p 1) :: u32) OR ucast (mnc ?p 0)))
              = [hex_digit (unat (mnc ?p 1)), hex_digit (unat (mnc ?p 0))]"
    using d by (simp add: unat_packed_byte printf_byte)
  have f: "unat (push_bit 4 (0xF :: u32) OR ucast (mcc ?p 2)) = 16 * 15 + unat (mcc ?p 2)"
    using d(3) unat_pack_nibbles [of "0xF" "ucast (mcc ?p 2)"]
    by (simp add: unat_ucast_u8)
  have b2: "printf_0x 2 (unat (push_bit 4 (if nof_mnc_digits ?p = 2 then (0xF :: u32)
                                         else ucast (mnc ?p 2)) OR ucast (mcc ?p 2)))
              = [hex_digit (if nof_mnc_digits ?p = 2 then 15 else unat (mnc ?p 2)),
                 hex_digit (unat (mcc ?p 2))]"
  proof (cases "nof_mnc_digits ?p = 2")
    case True
    have e: "push_bit 4 (if nof_mnc_digits ?p = 2 then (0xF :: u32) else ucast (mnc ?p 2))
               OR ucast (mcc ?p 2) = push_bit 4 (0xF :: u32) OR ucast (mcc ?p 2)"
      using True by simp
    have u: "unat (push_bit 4 (if nof_mnc_digits ?p = 2 then (0xF :: u32) else ucast (mnc ?p 2))
               OR ucast (mcc ?p 2)) = 16 * 15 + unat (mcc ?p 2)"
      by (simp only: e f)
    have pb: "printf_0x 2 (16 * 15 + unat (mcc ?p 2))
                = [hex_digit 15, hex_digit (unat (mcc ?p 2))]"
      using d(3) by (intro printf_byte) simp_all
    show ?thesis unfolding u using pb True by simp
  next
    case False
    then show ?thesis using d by (simp add: unat_packed_byte printf_byte)
  qed
  show ?thesis
    unfolding tmgi_sprintf_def Let_def
    by (simp only: b1 b2 b3 unat_service_id) simp
qed

lemma length_tmgi_sprintf:
  assumes "bcd_digits t"
  shows "length (tmgi_sprintf t) = 12"
proof -
  have "65536 * unat (serviced_id t 0) + 256 * unat (serviced_id t 1) + unat (serviced_id t 2)
          < 16 ^ 6"
    using unat_u8_bound [of "serviced_id t 0"] unat_u8_bound [of "serviced_id t 1"]
      unat_u8_bound [of "serviced_id t 2"] by simp
  then have "length (printf_0x 6 (65536 * unat (serviced_id t 0) + 256 * unat (serviced_id t 1)
                          + unat (serviced_id t 2))) = 6"
    by (rule length_printf_0x) simp
  then show ?thesis by (simp add: tmgi_sprintf_format [OF assms])
qed

lemma mtch_loop_tmgi:
  "map mtch_tmgi (fst (mtch_loop i xs acc d))
     = map mtch_tmgi acc @ map (\<lambda>x. tmgi_sprintf (tmgi x)) xs"
  by (induction xs arbitrary: acc d) (simp_all add: Let_def split_beta)

lemma mch_loop_tmgi:
  "map (\<lambda>m. map mtch_tmgi (mtchs m)) (fst (mch_loop i ps acc d))
     = map (\<lambda>m. map mtch_tmgi (mtchs m)) acc
       @ map (\<lambda>p. map (\<lambda>x. tmgi_sprintf (tmgi x)) (mbms_session_info_list p)) ps"
  by (induction ps arbitrary: i acc d) (simp_all add: Let_def split_beta mtch_loop_tmgi)

lemma set_mbsfn_config_tmgi:
  "map (\<lambda>m. map mtch_tmgi (mtchs m)) (m_mch_info (set_mbsfn_config s mcch))
     = map (\<lambda>p. map (\<lambda>x. tmgi_sprintf (tmgi x)) (mbms_session_info_list p))
         (pmch_info_list mcch)"
  by (simp add: set_mbsfn_config_def Let_def split_beta mch_loop_tmgi)

lemma set_mbsfn_config_nth:
  assumes "i < nof_pmch_info mcch"
    and "j < nof_mbms_session_info (pmch_info_list mcch ! i)"
  shows "mtch_tmgi (mtchs (m_mch_info (set_mbsfn_config s mcch) ! i) ! j)
           = tmgi_sprintf (tmgi (mbms_session_info_list (pmch_info_list mcch ! i) ! j))"
proof -
  let ?L = "map (\<lambda>m. map mtch_tmgi (mtchs m)) (m_mch_info (set_mbsfn_config s mcch))"
  let ?R = "map (\<lambda>p. map (\<lambda>x. tmgi_sprintf (tmgi x)) (mbms_session_info_list p))
         (pmch_info_list mcch)"
  have eq: "?L = ?R" by (rule set_mbsfn_config_tmgi)
  have i: "i < length (pmch_info_list mcch)" using assms(1) by (simp add: nof_pmch_info_def)
  have j: "j < length (mbms_session_info_list (pmch_info_list mcch ! i))"
    using assms(2) by (simp add: nof_mbms_session_info_def)
  from eq have "length ?L = length ?R" by simp
  then have i': "i < length (m_mch_info (set_mbsfn_config s mcch))" using i by simp
  from eq have "?L ! i = ?R ! i" by simp
  then have row: "map mtch_tmgi (mtchs (m_mch_info (set_mbsfn_config s mcch) ! i))
      = map (\<lambda>x. tmgi_sprintf (tmgi x)) (mbms_session_info_list (pmch_info_list mcch ! i))"
    using i i' by simp
  then have "length (mtchs (m_mch_info (set_mbsfn_config s mcch) ! i))
      = length (mbms_session_info_list (pmch_info_list mcch ! i))"
    by (metis length_map)
  then have j': "j < length (mtchs (m_mch_info (set_mbsfn_config s mcch) ! i))" using j by simp
  from row have "map mtch_tmgi (mtchs (m_mch_info (set_mbsfn_config s mcch) ! i)) ! j
      = map (\<lambda>x. tmgi_sprintf (tmgi x)) (mbms_session_info_list (pmch_info_list mcch ! i)) ! j"
    by simp
  then show ?thesis using j j' by simp
qed

lemma bcd_901_56: "bcd_digits (tmgi_of (bytes3 9 0 1) (bytes3 5 6 0) 2 (bytes3 0 0 1))"
  by (simp add: bcd_digits_def tmgi_of_def bytes3_def)

lemma replicate_zeros:
  "replicate 5 c = [c, c, c, c, c]" "replicate 4 c = [c, c, c, c]" "replicate 3 c = [c, c, c]"
  "replicate 2 c = [c, c]"
  by (simp_all add: eval_nat_numeral)

lemmas hex_eval =
  printf_0x_def hex_small hex_large hex_digit_def tmgi_of_def bytes3_def replicate_zeros

lemma tmgi_901_56:
  "tmgi_sprintf (tmgi_of (bytes3 9 0 1) (bytes3 5 6 0) 2 (bytes3 0 0 1)) = ''00000109f165''"
  by (simp add: tmgi_sprintf_format [OF bcd_901_56]) (simp add: hex_eval)

lemma bcd_310_410: "bcd_digits (tmgi_of (bytes3 3 1 0) (bytes3 4 1 0) 3 (bytes3 0 0xAB 0xCD))"
  by (simp add: bcd_digits_def tmgi_of_def bytes3_def)

lemma tmgi_310_410:
  "tmgi_sprintf (tmgi_of (bytes3 3 1 0) (bytes3 4 1 0) 3 (bytes3 0 0xAB 0xCD)) = ''00abcd130014''"
  by (simp add: tmgi_sprintf_format [OF bcd_310_410]) (simp add: hex_eval)

text \<open>
  Claim C6, as stated, fails: for MCC 901, MNC 56 (two digits) and service identifier
  0x000001 the string that \<^verbatim>\<open>set_mbsfn_config\<close> builds is \<^verbatim>\<open>00000109f165\<close>: twelve characters,
  not sixteen, and the packed bytes are 09, f1, 65 (as the comment in the source says:
  HEX 0x09F165), not the pattern \<^verbatim>\<open>095 F61\<close>.
\<close>

theorem tmgi_strings_counterexample:
  "mtch_tmgi (mtchs (m_mch_info (set_mbsfn_config (scenario_phy True True [])
       (scenario_mcch (tmgi_of (bytes3 9 0 1) (bytes3 5 6 0) 2 (bytes3 0 0 1)))) ! 0) ! 0)
     = ''00000109f165'' \<and>
   length (mtch_tmgi (mtchs (m_mch_info (set_mbsfn_config (scenario_phy True True [])
       (scenario_mcch (tmgi_of (bytes3 9 0 1) (bytes3 5 6 0) 2 (bytes3 0 0 1)))) ! 0) ! 0))
     \<noteq> 16 \<and>
   mtch_tmgi (mtchs (m_mch_info (set_mbsfn_config (scenario_phy True True [])
       (scenario_mcch (tmgi_of (bytes3 9 0 1) (bytes3 5 6 0) 2 (bytes3 0 0 1)))) ! 0) ! 0)
     \<noteq> ''000001095 F61'' \<and>
   mtch_tmgi (mtchs (m_mch_info (set_mbsfn_config (scenario_phy True True [])
       (scenario_mcch (tmgi_of (bytes3 9 0 1) (bytes3 5 6 0) 2 (bytes3 0 0 1)))) ! 0) ! 0)
     \<noteq> ''000001095F61''"
proof -
  let ?m = "scenario_mcch (tmgi_of (bytes3 9 0 1) (bytes3 5 6 0) 2 (bytes3 0 0 1))"
  have "mtch_tmgi (mtchs (m_mch_info (set_mbsfn_config (scenario_phy True True []) ?m) ! 0) ! 0)
          = tmgi_sprintf (tmgi (mbms_session_info_list (pmch_info_list ?m ! 0) ! 0))"
    by (rule set_mbsfn_config_nth)
       (simp_all add: scenario_mcch_def nof_pmch_info_def nof_mbms_session_info_def)
  also have "\<dots> = ''00000109f165''"
    by (simp add: scenario_mcch_def tmgi_901_56)
  finally show ?thesis by simp
qed

text \<open>
  Claim C6, amended. For every session \<open>j\<close> of every multicast channel \<open>i\<close> of a received
  MCCH message, \<^verbatim>\<open>set_mbsfn_config\<close> builds the TMGI string with the format
  \<^verbatim>\<open>%06x%02x%02x%02x\<close>. When the digits fit a nibble, the string has 12 lower-case
  hexadecimal digits: the 3-byte service identifier as 6 digits, then three packed bytes,
  the first with MCC digit 2 in the high nibble and MCC digit 1 in the low nibble, the second
  with MNC digit 3 (or the filler 0xF when the MNC has two digits) in the high nibble and MCC
  digit 3 in the low nibble, the third with MNC digit 2 in the high nibble and MNC digit 1 in
  the low nibble. (Digit \<open>k\<close> is the array element \<open>k - 1\<close>.)
\<close>

theorem tmgi_strings:
  assumes "i < nof_pmch_info mcch"
    and "j < nof_mbms_session_info (pmch_info_list mcch ! i)"
  shows
    "mtch_tmgi (mtchs (m_mch_info (set_mbsfn_config s mcch) ! i) ! j)
       = tmgi_sprintf (tmgi (mbms_session_info_list (pmch_info_list mcch ! i) ! j)) \<and>
     (bcd_digits (tmgi (mbms_session_info_list (pmch_info_list mcch ! i) ! j)) \<longrightarrow>
        mtch_tmgi (mtchs (m_mch_info (set_mbsfn_config s mcch) ! i) ! j)
          = printf_0x 6
              (65536 * unat (serviced_id (tmgi (mbms_session_info_list (pmch_info_list mcch ! i) ! j)) 0)
               + 256 * unat (serviced_id (tmgi (mbms_session_info_list (pmch_info_list mcch ! i) ! j)) 1)
               + unat (serviced_id (tmgi (mbms_session_info_list (pmch_info_list mcch ! i) ! j)) 2))
            @ (let p = plmn_id_explicit_value
                         (tmgi (mbms_session_info_list (pmch_info_list mcch ! i) ! j))
               in [hex_digit (unat (mcc p 1)), hex_digit (unat (mcc p 0)),
                   hex_digit (if nof_mnc_digits p = 2 then 15 else unat (mnc p 2)),
                   hex_digit (unat (mcc p 2)),
                   hex_digit (unat (mnc p 1)), hex_digit (unat (mnc p 0))]) \<and>
        length (mtch_tmgi (mtchs (m_mch_info (set_mbsfn_config s mcch) ! i) ! j)) = 12)"
proof -
  let ?t = "tmgi (mbms_session_info_list (pmch_info_list mcch ! i) ! j)"
  have built: "mtch_tmgi (mtchs (m_mch_info (set_mbsfn_config s mcch) ! i) ! j) = tmgi_sprintf ?t"
    using assms by (rule set_mbsfn_config_nth)
  have fmt: "bcd_digits ?t \<Longrightarrow> tmgi_sprintf ?t =
           printf_0x 6 (65536 * unat (serviced_id ?t 0) + 256 * unat (serviced_id ?t 1)
                          + unat (serviced_id ?t 2))
           @ [hex_digit (unat (mcc (plmn_id_explicit_value ?t) 1)),
              hex_digit (unat (mcc (plmn_id_explicit_value ?t) 0)),
              hex_digit (if nof_mnc_digits (plmn_id_explicit_value ?t) = 2 then 15
                         else unat (mnc (plmn_id_explicit_value ?t) 2)),
              hex_digit (unat (mcc (plmn_id_explicit_value ?t) 2)),
              hex_digit (unat (mnc (plmn_id_explicit_value ?t) 1)),
              hex_digit (unat (mnc (plmn_id_explicit_value ?t) 0))]"
    by (rule tmgi_sprintf_format)
  have len: "bcd_digits ?t \<Longrightarrow> length (tmgi_sprintf ?t) = 12"
    by (rule length_tmgi_sprintf)
  show ?thesis
    unfolding built Let_def using fmt len by blast
qed

text \<open>
  MCC 310, MNC 410 (three digits) and service identifier 0x00ABCD give \<^verbatim>\<open>00abcd130014\<close>.
\<close>

theorem tmgi_strings_witness:
  "0 < nof_pmch_info (scenario_mcch (tmgi_of (bytes3 3 1 0) (bytes3 4 1 0) 3 (bytes3 0 0xAB 0xCD))) \<and>
   bcd_digits (tmgi_of (bytes3 3 1 0) (bytes3 4 1 0) 3 (bytes3 0 0xAB 0xCD)) \<and>
   mtch_tmgi (mtchs (m_mch_info (set_mbsfn_config (scenario_phy True True [])
       (scenario_mcch (tmgi_of (bytes3 3 1 0) (bytes3 4 1 0) 3 (bytes3 0 0xAB 0xCD)))) ! 0) ! 0)
     = ''00abcd130014'' \<and>
   length (mtch_tmgi (mtchs (m_mch_info (set_mbsfn_config (scenario_phy True True [])
       (scenario_mcch (tmgi_of (bytes3 3 1 0) (bytes3 4 1 0) 3 (bytes3 0 0xAB 0xCD)))) ! 0) ! 0))
     = 12"
proof -
  let ?t = "tmgi_of (bytes3 3 1 0) (bytes3 4 1 0) 3 (bytes3 0 0xAB 0xCD)"
  let ?m = "scenario_mcch ?t"
  have i: "0 < nof_pmch_info ?m" and j: "0 < nof_mbms_session_info (pmch_info_list ?m ! 0)"
    by (simp_all add: scenario_mcch_def nof_pmch_info_def nof_mbms_session_info_def)
  have t: "tmgi (mbms_session_info_list (pmch_info_list ?m ! 0) ! 0) = ?t"
    by (simp add: scenario_mcch_def)
  from tmgi_strings [OF i j, of "scenario_phy True True []"] bcd_310_410 tmgi_310_410 i
  show ?thesis by (simp add: t)
qed

end
